theory Spec2Isabelle
  imports Complex_Main
begin

text \<open>
  A shallow embedding of the latent-dynamics and planning code of \<open>sheeprl\<close>: the
  recurrent state-space model and the player of \<open>dreamer_v1/agent.py\<close>, and the parts of
  the training functions of \<open>dreamer_v2/dreamer_v2.py\<close> and \<open>p2e/p2e.py\<close> that step the
  dynamics, roll out imagined trajectories and form the lambda returns, the discount
  weights and the loss scalars. The definitions come first, in the order of the
  components; the facts about them and the claims of the specification follow.
\<close>

section \<open>Tensors\<close>

text \<open>
  The training code of the repository works on dense \<open>torch\<close> tensors. A tensor is
  modelled by its shape and by the function from a multi-index to the element stored
  there. Elements are real numbers: the rounding of floating-point arithmetic is outside
  the model. Only the tensor operations that the modelled source lines call are defined,
  each with the meaning the \<open>torch\<close> documentation gives it.
\<close>

record tensor =
  shape :: "nat list"
  elem :: "nat list \<Rightarrow> real"

text \<open>
  The exceptions that the modelled code raises. The message of a \<open>ValueError\<close> is an
  f-string: its literal text and the values it interpolates.
\<close>

datatype fpart = Text string | IntVal int | StrVal string

datatype error = IndexError | RuntimeError | NotImplementedError | ValueError "fpart list"

definition zeros :: "nat list \<Rightarrow> tensor" where
  "zeros s = \<lparr>shape = s, elem = (\<lambda>idx. 0)\<rparr>"

definition zeros_like :: "tensor \<Rightarrow> tensor" where
  "zeros_like t = \<lparr>shape = shape t, elem = (\<lambda>idx. 0)\<rparr>"

definition ones_like :: "tensor \<Rightarrow> tensor" where
  "ones_like t = \<lparr>shape = shape t, elem = (\<lambda>idx. 1)\<rparr>"

text \<open>
  \<open>slice_index n i\<close> is the position that Python gives to the bound \<open>i\<close> of a slice of a
  sequence of length \<open>n\<close>: a negative bound counts from the end, and every bound is
  clipped to \<open>0..n\<close>.
\<close>

definition slice_index :: "nat \<Rightarrow> int \<Rightarrow> nat" where
  "slice_index n i = (if i < 0 then nat (max 0 (int n + i)) else min n (nat i))"

text \<open>\<open>slice0 a b t\<close> is \<open>t[a:b]\<close>, a slice along the first dimension.\<close>

definition slice0 :: "int option \<Rightarrow> int option \<Rightarrow> tensor \<Rightarrow> tensor" where
  "slice0 start stop t =
     (let n = (case shape t of [] \<Rightarrow> 0 | m # _ \<Rightarrow> m);
          lo = (case start of None \<Rightarrow> 0 | Some i \<Rightarrow> slice_index n i);
          hi = (case stop of None \<Rightarrow> n | Some j \<Rightarrow> slice_index n j)
      in \<lparr>shape = (hi - lo) # tl (shape t),
          elem = (\<lambda>idx. case idx of [] \<Rightarrow> elem t [] | i # rest \<Rightarrow> elem t ((lo + i) # rest))\<rparr>)"

text \<open>
  \<open>cat0 a b\<close> is \<open>torch.cat((a, b), 0)\<close>. \<open>torch\<close> raises when the trailing dimensions of
  the operands differ; every call modelled here concatenates slices of one tensor, whose
  trailing dimensions agree.
\<close>

definition cat0 :: "tensor \<Rightarrow> tensor \<Rightarrow> tensor" where
  "cat0 a b =
     (let na = (case shape a of [] \<Rightarrow> 0 | m # _ \<Rightarrow> m);
          nb = (case shape b of [] \<Rightarrow> 0 | m # _ \<Rightarrow> m)
      in \<lparr>shape = (na + nb) # tl (shape a),
          elem = (\<lambda>idx. case idx of [] \<Rightarrow> elem a []
                  | i # rest \<Rightarrow> if i < na then elem a (i # rest) else elem b ((i - na) # rest))\<rparr>)"

text \<open>
  \<open>cumprod0 t\<close> is \<open>torch.cumprod(t, 0)\<close>: the running product along the first
  dimension, \<open>y\<^sub>0 = x\<^sub>0\<close> and \<open>y\<^sub>i\<^sub>+\<^sub>1 = y\<^sub>i * x\<^sub>i\<^sub>+\<^sub>1\<close>.
\<close>

fun cumprod_at :: "(nat \<Rightarrow> real) \<Rightarrow> nat \<Rightarrow> real" where
  "cumprod_at f 0 = f 0"
| "cumprod_at f (Suc i) = cumprod_at f i * f (Suc i)"

definition cumprod0 :: "tensor \<Rightarrow> tensor" where
  "cumprod0 t =
     \<lparr>shape = shape t,
      elem = (\<lambda>idx. case idx of [] \<Rightarrow> elem t [] | i # rest \<Rightarrow> cumprod_at (\<lambda>k. elem t (k # rest)) i)\<rparr>"

text \<open>\<open>select_last0 t\<close> is \<open>t[..., 0]\<close> and \<open>unsqueeze_last t\<close> is \<open>t.unsqueeze(-1)\<close>.\<close>

definition select_last0 :: "tensor \<Rightarrow> tensor" where
  "select_last0 t = \<lparr>shape = butlast (shape t), elem = (\<lambda>idx. elem t (idx @ [0]))\<rparr>"

definition unsqueeze_last :: "tensor \<Rightarrow> tensor" where
  "unsqueeze_last t = \<lparr>shape = shape t @ [1], elem = (\<lambda>idx. elem t (butlast idx))\<rparr>"

definition scale :: "real \<Rightarrow> tensor \<Rightarrow> tensor" where
  "scale c t = \<lparr>shape = shape t, elem = (\<lambda>idx. c * elem t idx)\<rparr>"

subsection \<open>Broadcasting\<close>

text \<open>
  Two shapes are compared from the trailing dimension: the sizes must be equal, or one
  of them is 1, or one of them is missing. \<open>torch\<close> raises a \<open>RuntimeError\<close> otherwise.
\<close>

fun broadcast_rev :: "nat list \<Rightarrow> nat list \<Rightarrow> nat list option" where
  "broadcast_rev [] ys = Some ys"
| "broadcast_rev (x # xs) [] = Some (x # xs)"
| "broadcast_rev (x # xs) (y # ys) =
     (if x = y \<or> y = 1 then map_option ((#) x) (broadcast_rev xs ys)
      else if x = 1 then map_option ((#) y) (broadcast_rev xs ys)
      else None)"

definition broadcast_shapes :: "nat list \<Rightarrow> nat list \<Rightarrow> nat list option" where
  "broadcast_shapes s1 s2 = map_option rev (broadcast_rev (rev s1) (rev s2))"

text \<open>
  \<open>bidx s idx\<close> is the index of an operand of shape \<open>s\<close> that the index \<open>idx\<close> of the
  broadcast result reads: the leading positions that \<open>s\<close> lacks are dropped and a
  dimension of size 1 is read at 0. In an assignment \<open>t[i] = v\<close> the value may have more
  dimensions than the row it fills, all of them leading ones; they are read at 0 too.
\<close>

definition bidx :: "nat list \<Rightarrow> nat list \<Rightarrow> nat list" where
  "bidx s idx =
     map2 (\<lambda>d i. if d = 1 then 0 else i) s
       (replicate (length s - length idx) 0 @ drop (length idx - length s) idx)"

definition broadcast_op :: "(real \<Rightarrow> real \<Rightarrow> real) \<Rightarrow> tensor \<Rightarrow> tensor \<Rightarrow> error + tensor" where
  "broadcast_op f a b =
     (case broadcast_shapes (shape a) (shape b) of
        None \<Rightarrow> Inl RuntimeError
      | Some s \<Rightarrow> Inr \<lparr>shape = s,
                      elem = (\<lambda>idx. f (elem a (bidx (shape a) idx)) (elem b (bidx (shape b) idx)))\<rparr>)"

definition add :: "tensor \<Rightarrow> tensor \<Rightarrow> error + tensor" where
  "add = broadcast_op (+)"

definition mul :: "tensor \<Rightarrow> tensor \<Rightarrow> error + tensor" where
  "mul = broadcast_op (*)"

subsection \<open>Mean\<close>

fun indices :: "nat list \<Rightarrow> nat list list" where
  "indices [] = [[]]"
| "indices (n # ns) = concat (map (\<lambda>i. map ((#) i) (indices ns)) [0..<n])"

text \<open>
  \<open>torch_mean t\<close> is \<open>torch.mean(t)\<close>, the sum of all elements over their number. For a tensor
  without elements \<open>torch\<close> returns \<open>nan\<close> and the model returns 0.
\<close>

definition torch_mean :: "tensor \<Rightarrow> real" where
  "torch_mean t = (\<Sum>idx\<leftarrow>indices (shape t). elem t idx) / real (prod_list (shape t))"


subsection \<open>Indexing and assignment\<close>

text \<open>\<open>select0 i t\<close> is \<open>t[i]\<close>: Python raises \<open>IndexError\<close> outside the first dimension.\<close>

definition select0 :: "int \<Rightarrow> tensor \<Rightarrow> error + tensor" where
  "select0 i t =
     (let n = int (case shape t of [] \<Rightarrow> 0 | m # _ \<Rightarrow> m);
          j = (if i < 0 then n + i else i)
      in if 0 \<le> j \<and> j < n
         then Inr \<lparr>shape = tl (shape t), elem = (\<lambda>idx. elem t (nat j # idx))\<rparr>
         else Inl IndexError)"

text \<open>\<open>tensor1 c\<close> is \<open>torch.tensor([c])\<close> and \<open>expand_as v t\<close> is \<open>v.expand_as(t)\<close>.\<close>

definition tensor1 :: "real \<Rightarrow> tensor" where
  "tensor1 c = \<lparr>shape = [1], elem = (\<lambda>idx. c)\<rparr>"

definition expand_as :: "tensor \<Rightarrow> tensor \<Rightarrow> error + tensor" where
  "expand_as v t =
     (if broadcast_shapes (shape v) (shape t) = Some (shape t)
      then Inr \<lparr>shape = shape t, elem = (\<lambda>idx. elem v (bidx (shape v) idx))\<rparr>
      else Inl RuntimeError)"

text \<open>
  \<open>setitem0 i t v\<close> is the assignment \<open>t[i] = v\<close>, returning the updated tensor: row \<open>i\<close>
  takes the value \<open>v\<close>, broadcast to the shape of the row, and the other rows are kept.
  Python raises \<open>IndexError\<close> when \<open>i\<close> is outside the first dimension; \<open>set_row\<close> is the
  assignment for an index known to be inside. In every assignment modelled here the
  value has the shape of the row, up to leading dimensions of size 1.
\<close>

definition set_row :: "nat \<Rightarrow> tensor \<Rightarrow> tensor \<Rightarrow> tensor" where
  "set_row i t v =
     \<lparr>shape = shape t,
      elem = (\<lambda>idx. case idx of [] \<Rightarrow> elem t []
              | j # rest \<Rightarrow> if j = i then elem v (bidx (shape v) rest) else elem t idx)\<rparr>"

definition setitem0 :: "nat \<Rightarrow> tensor \<Rightarrow> tensor \<Rightarrow> error + tensor" where
  "setitem0 i t v =
     (if i < (case shape t of [] \<Rightarrow> 0 | m # _ \<Rightarrow> m) then Inr (set_row i t v) else Inl IndexError)"

text \<open>
  \<open>zero_dim1 t envs\<close> is the assignment \<open>t[:, envs] = torch.zeros_like(t[:, envs])\<close> for a
  sequence \<open>envs\<close> of integers: an index below zero counts from the end of the second
  dimension, and an index outside it raises \<open>IndexError\<close>.
\<close>

definition dim1_index :: "nat \<Rightarrow> int \<Rightarrow> error + nat" where
  "dim1_index n i =
     (let j = (if i < 0 then int n + i else i)
      in if 0 \<le> j \<and> j < int n then Inr (nat j) else Inl IndexError)"

fun dim1_indices :: "nat \<Rightarrow> int list \<Rightarrow> error + nat list" where
  "dim1_indices n [] = Inr []"
| "dim1_indices n (i # rest) =
     (case dim1_index n i of
        Inl e \<Rightarrow> Inl e
      | Inr j \<Rightarrow> (case dim1_indices n rest of Inl e \<Rightarrow> Inl e | Inr js \<Rightarrow> Inr (j # js)))"

definition zero_dim1 :: "tensor \<Rightarrow> int list \<Rightarrow> error + tensor" where
  "zero_dim1 t envs =
     (case shape t of
        _ # n # _ \<Rightarrow>
          (case dim1_indices n envs of
             Inl e \<Rightarrow> Inl e
           | Inr js \<Rightarrow>
               Inr \<lparr>shape = shape t,
                     elem = (\<lambda>idx. case idx of
                               _ # j # _ \<Rightarrow> if j \<in> set js then 0 else elem t idx
                             | _ \<Rightarrow> elem t idx)\<rparr>)
      | _ \<Rightarrow> Inl IndexError)"

subsection \<open>Concatenation and reshaping along the last dimensions\<close>

text \<open>\<open>cat_last a b\<close> is \<open>torch.cat((a, b), -1)\<close> for tensors with at least one dimension.\<close>

definition cat_last :: "tensor \<Rightarrow> tensor \<Rightarrow> tensor" where
  "cat_last a b =
     \<lparr>shape = butlast (shape a) @ [last (shape a) + last (shape b)],
      elem = (\<lambda>idx. if last idx < last (shape a) then elem a idx
                     else elem b (butlast idx @ [last idx - last (shape a)]))\<rparr>"

text \<open>
  \<open>ravel s idx\<close> is the row-major offset of the index \<open>idx\<close> in a tensor of shape \<open>s\<close> and
  \<open>unravel s k\<close> is the index at the offset \<open>k\<close>. \<open>view_1_n t k\<close> is \<open>t.view(1, -1, k)\<close>: the
  elements in the same order, in the shape \<open>(1, n, k)\<close>, where \<open>n\<close> is inferred. \<open>torch\<close>
  raises when the number of elements is not a multiple of \<open>k\<close>; the tensors viewed in the
  modelled loops are stochastic states of \<open>k\<close> features per example.
\<close>

definition ravel :: "nat list \<Rightarrow> nat list \<Rightarrow> nat" where
  "ravel s idx = foldl (\<lambda>acc (d, i). acc * d + i) 0 (zip s idx)"

fun unravel :: "nat list \<Rightarrow> nat \<Rightarrow> nat list" where
  "unravel [] k = []"
| "unravel (d # ds) k = (k div prod_list ds) # unravel ds (k mod prod_list ds)"

definition view_1_n :: "tensor \<Rightarrow> nat \<Rightarrow> tensor" where
  "view_1_n t k =
     \<lparr>shape = [1, prod_list (shape t) div k, k],
      elem = (\<lambda>idx. elem t (unravel (shape t) (ravel [1, prod_list (shape t) div k, k] idx)))\<rparr>"

definition clamp_min :: "tensor \<Rightarrow> real \<Rightarrow> tensor" where
  "clamp_min t m = \<lparr>shape = shape t, elem = (\<lambda>idx. max (elem t idx) m)\<rparr>"

section \<open>Discount weights and the loss scalars\<close>

text \<open>
  \<open>dreamer_v2.py\<close>, \<open>train\<close>:
  \<^verbatim>\<open>discount = torch.cumprod(torch.cat((torch.ones_like(continues[:1]), continues[:-1]), 0), 0)\<close>
\<close>

definition discount :: "tensor \<Rightarrow> tensor" where
  "discount continues =
     cumprod0 (cat0 (ones_like (slice0 None (Some 1) continues)) (slice0 None (Some (- 1)) continues))"

text \<open>
  \<open>dreamer_v2.py\<close>, \<open>train\<close>:
  \<^verbatim>\<open>policy_loss = -torch.mean(discount[:-2].detach() * (objective + entropy.unsqueeze(-1)))\<close>
\<close>

definition policy_loss :: "tensor \<Rightarrow> tensor \<Rightarrow> tensor \<Rightarrow> error + real" where
  "policy_loss discnt objective entropy =
     (case add objective (unsqueeze_last entropy) of
        Inl e \<Rightarrow> Inl e
      | Inr s \<Rightarrow> (case mul (slice0 None (Some (- 2)) discnt) s of
                   Inl e \<Rightarrow> Inl e
                 | Inr w \<Rightarrow> Inr (- torch_mean w)))"

text \<open>
  \<open>dreamer_v2.py\<close>, \<open>train\<close>:
  \<^verbatim>\<open>value_loss = -torch.mean(discount[:-1, ..., 0] * qv.log_prob(lambda_values.detach()))\<close>
  The log-likelihood \<open>qv.log_prob(...)\<close> of the critic's distribution is computed by
  \<open>torch.distributions\<close>; the model takes the resulting tensor as \<open>log_prob\<close>.
\<close>

definition value_loss :: "tensor \<Rightarrow> tensor \<Rightarrow> error + real" where
  "value_loss discnt log_prob =
     (case mul (select_last0 (slice0 None (Some (- 1)) discnt)) log_prob of
        Inl e \<Rightarrow> Inl e
      | Inr w \<Rightarrow> Inr (- torch_mean w))"

text \<open>
  \<open>p2e.py\<close>, \<open>train\<close>:
  \<^verbatim>\<open>discount = torch.cumprod(torch.cat((torch.ones_like(done_mask[:1]), done_mask[:-2]), 0), 0)\<close>
  and \<^verbatim>\<open>policy_loss = actor_loss(discount * lambda_values)\<close>. The functions \<open>actor_loss\<close> and
  \<open>critic_loss\<close> are not part of the modelled sources; the model stops at the product that
  \<open>actor_loss\<close> receives.
\<close>

definition discount_p2e :: "tensor \<Rightarrow> tensor" where
  "discount_p2e done_mask =
     cumprod0 (cat0 (ones_like (slice0 None (Some 1) done_mask)) (slice0 None (Some (- 2)) done_mask))"

definition actor_loss_input_p2e :: "tensor \<Rightarrow> tensor \<Rightarrow> error + tensor" where
  "actor_loss_input_p2e done_mask lambda_values = mul (discount_p2e done_mask) lambda_values"

text \<open>
  A tensor of shape \<open>(length xs, 1, 1)\<close> that holds the series \<open>xs\<close> along the first
  dimension: one trajectory of per-step scalars, used to state examples.
\<close>

definition series :: "real list \<Rightarrow> tensor" where
  "series xs = \<lparr>shape = [length xs, 1, 1],
               elem = (\<lambda>idx. case idx of [] \<Rightarrow> 0 | t # _ \<Rightarrow> if t < length xs then xs ! t else 0)\<rparr>"

subsection \<open>The entropy bonus of the actor\<close>

text \<open>
  \<open>stack_sum_last ts\<close> is \<open>torch.stack(ts, -1).sum(dim=-1)\<close>: \<open>torch.stack\<close> raises a
  \<open>RuntimeError\<close> for an empty list and for tensors of different shapes.
\<close>

definition stack_sum_last :: "tensor list \<Rightarrow> error + tensor" where
  "stack_sum_last ts =
     (case ts of
        [] \<Rightarrow> Inl RuntimeError
      | t # us \<Rightarrow> if list_all (\<lambda>u. shape u = shape t) us
                  then Inr \<lparr>shape = shape t, elem = (\<lambda>idx. \<Sum>u\<leftarrow>ts. elem u idx)\<rparr>
                  else Inl RuntimeError)"

text \<open>
  \<open>dreamer_v2.py\<close>, \<open>train\<close>:
  \<^verbatim>\<open>try:
    entropy = args.actor_ent_coef * torch.stack([p.entropy() for p in policies], -1).sum(dim=-1)
except NotImplementedError:
    entropy = torch.zeros_like(objective)
policy_loss = -torch.mean(discount[:-2].detach() * (objective + entropy.unsqueeze(-1)))\<close>
  The policies are the distributions returned by the actor, a class that is not among the
  sources. A policy is modelled by the result of its \<open>entropy()\<close> method: \<open>None\<close> when the
  method raises \<open>NotImplementedError\<close>, the entropy tensor otherwise. The list
  comprehension raises as soon as one policy does; only \<open>NotImplementedError\<close> is caught.
\<close>

definition entropy_term :: "real \<Rightarrow> tensor option list \<Rightarrow> tensor \<Rightarrow> error + tensor" where
  "entropy_term actor_ent_coef policies objective =
     (case those policies of
        None \<Rightarrow> Inr (zeros_like objective)
      | Some entropies \<Rightarrow>
          (case stack_sum_last entropies of
             Inl e \<Rightarrow> Inl e
           | Inr summed \<Rightarrow> Inr (scale actor_ent_coef summed)))"

definition actor_policy_loss :: "real \<Rightarrow> tensor option list \<Rightarrow> tensor \<Rightarrow> tensor \<Rightarrow> error + real" where
  "actor_policy_loss actor_ent_coef policies discnt objective =
     (case entropy_term actor_ent_coef policies objective of
        Inl e \<Rightarrow> Inl e
      | Inr entropy \<Rightarrow> policy_loss discnt objective entropy)"

text \<open>The tensor whose elements all equal \<open>c\<close>, used to state examples.\<close>

definition full :: "nat list \<Rightarrow> real \<Rightarrow> tensor" where
  "full s c = \<lparr>shape = s, elem = (\<lambda>idx. c)\<rparr>"

section \<open>Lambda returns\<close>

text \<open>
  Modelled from the spec: \<open>compute_lambda_values\<close>. The training functions import it from
  \<open>sheeprl.algos.dreamer_v2.utils\<close> and \<open>sheeprl.algos.dreamer_v1.utils\<close>, which are not among
  the sources. The Return Estimator of the specification is

  \<^verbatim>\<open>lambda_value_H = value_H                      (bootstrap, supplied externally)
for t = H-1 down to 0:
    lambda_value_t = reward_t + continuation_t * ((1-lambda) * value_{t+1} + lambda * lambda_value_{t+1})\<close>

  an explicit reverse iteration over a buffer. The buffer \<open>buf\<close> holds one row per step;
  row \<open>H\<close> is the bootstrap value. \<open>value\<^sub>t\<^sub>+\<^sub>1\<close> is row \<open>t + 1\<close> of \<open>values\<close> and, at \<open>t + 1 = H\<close>,
  the bootstrap, which is broadcast against a row of \<open>values\<close>.
\<close>

text \<open>Modelled from the spec: the bootstrap value \<open>value\<^sub>H\<close> of one element of a row.\<close>

definition bootstrap_at :: "tensor \<Rightarrow> nat list \<Rightarrow> real" where
  "bootstrap_at bootstrap rest = elem bootstrap (bidx (shape bootstrap) (0 # rest))"

text \<open>Modelled from the spec: \<open>value\<^sub>t\<^sub>+\<^sub>1\<close> of the Return Estimator's recursion.\<close>

definition next_value :: "tensor \<Rightarrow> tensor \<Rightarrow> nat \<Rightarrow> nat \<Rightarrow> nat list \<Rightarrow> real" where
  "next_value values bootstrap horizon t rest =
     (if Suc t < horizon then elem values (Suc t # rest) else bootstrap_at bootstrap rest)"

text \<open>
  Modelled from the spec: the reverse iteration of the Return Estimator, with \<open>t + 1\<close>
  steps left; the step at \<open>t\<close> writes \<open>lambda_value\<^sub>t\<close> into row \<open>t\<close> of the buffer.
\<close>

fun lambda_loop ::
  "tensor \<Rightarrow> tensor \<Rightarrow> tensor \<Rightarrow> tensor \<Rightarrow> nat \<Rightarrow> real \<Rightarrow> nat \<Rightarrow> (nat list \<Rightarrow> real) \<Rightarrow> (nat list \<Rightarrow> real)"
where
  "lambda_loop rewards values continues bootstrap horizon lmbda 0 buf = buf"
| "lambda_loop rewards values continues bootstrap horizon lmbda (Suc t) buf =
     lambda_loop rewards values continues bootstrap horizon lmbda t
       (\<lambda>idx. case idx of
                [] \<Rightarrow> buf []
              | i # rest \<Rightarrow>
                  if i = t
                  then elem rewards (t # rest) + elem continues (t # rest) *
                         ((1 - lmbda) * next_value values bootstrap horizon t rest + lmbda * buf (Suc t # rest))
                  else buf idx)"

text \<open>
  Modelled from the spec: \<open>compute_lambda_values\<close>, the rows 0 to \<open>H - 1\<close> of the buffer after
  the \<open>H\<close> steps, started with \<open>lambda_value\<^sub>H = value\<^sub>H\<close> in row \<open>H\<close>.
\<close>

definition compute_lambda_values ::
  "tensor \<Rightarrow> tensor \<Rightarrow> tensor \<Rightarrow> tensor \<Rightarrow> nat \<Rightarrow> real \<Rightarrow> tensor" where
  "compute_lambda_values rewards values continues bootstrap horizon lmbda =
     \<lparr>shape = horizon # tl (shape rewards),
      elem = lambda_loop rewards values continues bootstrap horizon lmbda horizon
               (\<lambda>idx. case idx of [] \<Rightarrow> 0
                       | i # rest \<Rightarrow> if i = horizon then bootstrap_at bootstrap rest else 0)\<rparr>"

text \<open>
  \<open>dreamer_v2.py\<close>, \<open>train\<close>:
  \<^verbatim>\<open>lambda_values = compute_lambda_values(
    predicted_rewards[:-1],
    predicted_target_values[:-1],
    continues[:-1],
    bootstrap=predicted_target_values[-1:],
    horizon=args.horizon,
    lmbda=args.lmbda,
)\<close>
\<close>

definition lambda_values_dv2 :: "tensor \<Rightarrow> tensor \<Rightarrow> tensor \<Rightarrow> nat \<Rightarrow> real \<Rightarrow> tensor" where
  "lambda_values_dv2 predicted_rewards predicted_target_values continues horizon lmbda =
     compute_lambda_values
       (slice0 None (Some (- 1)) predicted_rewards)
       (slice0 None (Some (- 1)) predicted_target_values)
       (slice0 None (Some (- 1)) continues)
       (slice0 (Some (- 1)) None predicted_target_values)
       horizon lmbda"

text \<open>
  \<open>p2e.py\<close>, \<open>train\<close>:
  \<^verbatim>\<open>lambda_values = compute_lambda_values(
    intrinsic_reward,
    predicted_values,
    done_mask,
    last_values=predicted_values[-1],
    horizon=args.horizon - 1,
    lmbda=args.lmbda,
)\<close>
  \<open>predicted_values[-1]\<close> raises \<open>IndexError\<close> when there is no predicted value, which is
  the case for a horizon below 2; \<open>horizon - 1\<close> is therefore never negative where the
  call is reached.
\<close>

definition lambda_values_p2e :: "tensor \<Rightarrow> tensor \<Rightarrow> tensor \<Rightarrow> nat \<Rightarrow> real \<Rightarrow> error + tensor" where
  "lambda_values_p2e intrinsic_reward predicted_values done_mask horizon lmbda =
     (case select0 (- 1) predicted_values of
        Inl e \<Rightarrow> Inl e
      | Inr last_values \<Rightarrow>
          Inr (compute_lambda_values intrinsic_reward predicted_values done_mask last_values
                 (horizon - 1) lmbda))"

section \<open>The recurrent state-space model\<close>

subsection \<open>Effects: calls of the networks and random draws\<close>

text \<open>
  The networks are parameters of the model: functions on tensors. What the code does
  beyond computing tensors is kept in an explicit state that every operation takes and
  returns: the log of the network calls, in order, with the tensors each call received;
  the stream of standard-normal noise tensors of the random generator, with the number
  of draws made so far; and the contents of memory that \<open>torch.empty\<close> hands out
  uninitialised.
\<close>

datatype call =
    Actor tensor
  | Recurrent tensor tensor tensor
  | Prior tensor
  | Posterior tensor tensor

record sim =
  calls :: "call list"
  randn :: "nat \<Rightarrow> tensor"
  draws :: nat
  fresh :: "nat list \<Rightarrow> real"

definition log_call :: "call \<Rightarrow> sim \<Rightarrow> sim" where
  "log_call c s = s\<lparr>calls := calls s @ [c]\<rparr>"

definition draw :: "sim \<Rightarrow> tensor \<times> sim" where
  "draw s = (randn s (draws s), s\<lparr>draws := Suc (draws s)\<rparr>)"

definition empty_tensor :: "nat list \<Rightarrow> sim \<Rightarrow> tensor" where
  "empty_tensor shp s = \<lparr>shape = shp, elem = fresh s\<rparr>"

subsection \<open>The stochastic state of a predictor's output\<close>

text \<open>
  Modelled from the spec: \<open>compute_stochastic_state\<close>, which \<open>dreamer_v1/agent.py\<close> imports
  from \<open>sheeprl.algos.dreamer_v1.utils\<close>, a module that is not among the sources. It is the
  shared utility of the specification's Distribution Utilities: the continuous
  \<open>make_distribution\<close> "clamps \<open>std\<close> to \<open>max(raw_std, min_std)\<close>" and \<open>sample\<close> "uses
  \<open>mean + std * noise\<close>", the noise drawn from a standard normal generator. A predictor is
  built with \<open>output_dim=args.stochastic_size * 2\<close>; the first half of its output is
  taken as the mean and the second half as the raw standard deviation. The callers
  receive \<open>((mean, std), sample)\<close>.
\<close>

text \<open>Modelled from the spec: the two halves of a predictor's output.\<close>

definition chunk2 :: "tensor \<Rightarrow> tensor \<times> tensor" where
  "chunk2 t =
     (let h = last (shape t) div 2
      in (\<lparr>shape = butlast (shape t) @ [h], elem = elem t\<rparr>,
          \<lparr>shape = butlast (shape t) @ [h], elem = (\<lambda>idx. elem t (butlast idx @ [last idx + h]))\<rparr>))"

text \<open>Modelled from the spec: the continuous \<open>sample\<close>, \<open>mean + std * noise\<close>.\<close>

definition sample_normal :: "tensor \<Rightarrow> tensor \<Rightarrow> tensor \<Rightarrow> tensor" where
  "sample_normal mean std noise =
     \<lparr>shape = shape mean, elem = (\<lambda>idx. elem mean idx + elem std idx * elem noise idx)\<rparr>"

text \<open>
  Modelled from the spec: \<open>compute_stochastic_state\<close>, the floor of the standard deviation
  followed by the sample; \<open>event_shape\<close> only groups dimensions of the distribution.
\<close>

definition compute_stochastic_state ::
  "tensor \<Rightarrow> nat \<Rightarrow> real \<Rightarrow> sim \<Rightarrow> ((tensor \<times> tensor) \<times> tensor) \<times> sim" where
  "compute_stochastic_state state_information event_shape min_std s =
     (let (mean, raw_std) = chunk2 state_information;
          std = clamp_min raw_std min_std;
          (noise, s') = draw s
      in (((mean, std), sample_normal mean std noise), s'))"

section \<open>Building the models\<close>

text \<open>
  \<open>dreamer_v1/agent.py\<close>, \<open>build_models\<close>. The hyper-parameters are the fields of
  \<open>DreamerV1Args\<close> that \<open>build_models\<close> reads, and \<open>lmbda\<close>, which the training function reads
  (\<open>lmbda=args.lmbda\<close>); the class itself is not among the sources.
\<close>

record dreamer_v1_args =
  cnn_channels_multiplier :: int
  dense_units :: int
  cnn_act :: string
  dense_act :: string
  stochastic_size :: int
  recurrent_state_size :: int
  hidden_size :: int
  mlp_layers :: int
  min_std :: real
  use_continues :: bool
  env_id :: string
  actor_init_std :: real
  actor_min_std :: real
  lmbda :: real

text \<open>
  \<open>"minedojo" in args.env_id\<close>: whether a string occurs in another one.
\<close>

primrec starts_with :: "string \<Rightarrow> string \<Rightarrow> bool" where
  "starts_with [] s = True"
| "starts_with (c # cs) s = (case s of [] \<Rightarrow> False | d # ds \<Rightarrow> c = d \<and> starts_with cs ds)"

primrec str_in :: "string \<Rightarrow> string \<Rightarrow> bool" where
  "str_in sub [] = (sub = [])"
| "str_in sub (c # cs) = (starts_with sub (c # cs) \<or> str_in sub cs)"

text \<open>
  \<^verbatim>\<open>if args.cnn_channels_multiplier <= 0:
    raise ValueError(f"cnn_channels_multiplier must be greater than zero, given {args.cnn_channels_multiplier}")
if args.dense_units <= 0:
    raise ValueError(f"dense_units must be greater than zero, given {args.dense_units}")
try:
    cnn_act = getattr(nn, args.cnn_act)
except AttributeError:
    raise ValueError(
        f"Invalid value for cnn_act, given {args.cnn_act}, "
        "must be one of https://pytorch.org/docs/stable/nn.html#non-linear-activations-weighted-sum-nonlinearity"
    )
try:
    dense_act = getattr(nn, args.dense_act)
except AttributeError:
    raise ValueError(
        f"Invalid value for dense_act, given {args.dense_act}, "
        "must be one of https://pytorch.org/docs/stable/nn.html#non-linear-activations-weighted-sum-nonlinearity"
    )\<close>
  \<open>getattr(nn, name)\<close> succeeds exactly when \<open>torch.nn\<close> has an attribute of that name; the
  list \<open>nn\<close> of these names is a parameter of the model.

  After the four checks \<open>build_models\<close> calls the constructors of the networks:
  \<open>CNNEncoder\<close>, \<open>MLPEncoder\<close>, \<open>RecurrentModel\<close>, \<open>MLP\<close>, \<open>RSSM\<close>, \<open>CNNDecoder\<close>, \<open>MLPDecoder\<close>,
  \<open>Actor\<close> and \<open>WorldModel\<close>. Apart from \<open>RecurrentModel\<close>, \<open>RSSM\<close> and \<open>WorldModel\<close>, which
  store what they are given or pass it to \<open>torch\<close>, their classes are not among the
  sources, and what they and \<open>torch\<close> do with a size, build or raise, is not decided here:
  the constructors, with the observation space and the keys they also receive, are the
  parameter \<open>make_models\<close> of the model. \<open>constructor_inputs\<close> holds the values computed
  from the hyper-parameters that the constructors receive:

  \<^item> \<open>channels_multiplier=args.cnn_channels_multiplier\<close>, \<open>activation=cnn_act\<close> and
    \<open>activation=dense_act\<close>;
  \<^item> \<open>mlp_layers=args.mlp_layers\<close> and \<open>dense_units=args.dense_units\<close>, for the encoder, the
    decoder and the actor;
  \<^item> \<open>input_size=sum(actions_dim) + args.stochastic_size\<close> and
    \<open>recurrent_state_size=args.recurrent_state_size\<close>, for the recurrent model;
  \<^item> \<open>output_dim=args.stochastic_size * 2\<close> and \<open>hidden_sizes=[args.hidden_size]\<close>, for the
    representation and the transition model;
  \<^item> \<open>args.min_std\<close>, for the \<open>RSSM\<close>;
  \<^item> \<open>latent_state_size = args.stochastic_size + args.recurrent_state_size\<close>, for the
    decoders, the reward model, the continue model, the actor and the critic;
  \<^item> \<open>hidden_sizes=[args.dense_units] * args.mlp_layers\<close>, for the reward model, the
    continue model and the critic: Python repeats the list \<open>mlp_layers\<close> times and gives
    the empty list for a count that is not positive;
  \<^item> whether a continue model is built, \<open>args.use_continues\<close>;
  \<^item> whether the actor is a \<open>MinedojoActor\<close>, \<open>"minedojo" in args.env_id\<close>, and its
    \<open>args.actor_init_std\<close> and \<open>args.actor_min_std\<close>.

  \<open>latent_state_size\<close> is computed before the constructors are called and cannot fail on
  integers; so is every other entry.
\<close>

record model_config =
  channels_multiplier :: int
  cnn_activation :: string
  dense_activation :: string
  dense_mlp_layers :: int
  dense_layer_units :: int
  recurrent_input_size :: int
  rnn_size :: int
  stochastic_output_dim :: int
  rssm_hidden_sizes :: "int list"
  rssm_min_std :: real
  latent_state_size :: int
  dense_hidden_sizes :: "int list"
  has_continue_model :: bool
  minedojo_actor :: bool
  actor_initial_std :: real
  actor_minimum_std :: real

definition constructor_inputs :: "int list \<Rightarrow> dreamer_v1_args \<Rightarrow> model_config" where
  "constructor_inputs actions_dim args =
     \<lparr>channels_multiplier = cnn_channels_multiplier args,
      cnn_activation = cnn_act args,
      dense_activation = dense_act args,
      dense_mlp_layers = mlp_layers args,
      dense_layer_units = dense_units args,
      recurrent_input_size = sum_list actions_dim + stochastic_size args,
      rnn_size = recurrent_state_size args,
      stochastic_output_dim = stochastic_size args * 2,
      rssm_hidden_sizes = [hidden_size args],
      rssm_min_std = min_std args,
      latent_state_size = stochastic_size args + recurrent_state_size args,
      dense_hidden_sizes = replicate (nat (mlp_layers args)) (dense_units args),
      has_continue_model = use_continues args,
      minedojo_actor = str_in ''minedojo'' (env_id args),
      actor_initial_std = actor_init_std args,
      actor_minimum_std = actor_min_std args\<rparr>"

definition invalid_act_url :: string where
  "invalid_act_url =
     ''must be one of https://pytorch.org/docs/stable/nn.html#non-linear-activations-weighted-sum-nonlinearity''"

definition build_models ::
  "string list \<Rightarrow> int list \<Rightarrow> (model_config \<Rightarrow> error + 'm) \<Rightarrow> dreamer_v1_args \<Rightarrow> error + 'm" where
  "build_models nn actions_dim make_models args =
     (if cnn_channels_multiplier args \<le> 0
      then Inl (ValueError [Text ''cnn_channels_multiplier must be greater than zero, given '',
                            IntVal (cnn_channels_multiplier args)])
      else if dense_units args \<le> 0
      then Inl (ValueError [Text ''dense_units must be greater than zero, given '', IntVal (dense_units args)])
      else if cnn_act args \<notin> set nn
      then Inl (ValueError [Text ''Invalid value for cnn_act, given '', StrVal (cnn_act args), Text '', '',
                            Text invalid_act_url])
      else if dense_act args \<notin> set nn
      then Inl (ValueError [Text ''Invalid value for dense_act, given '', StrVal (dense_act args), Text '', '',
                            Text invalid_act_url])
      else make_models (constructor_inputs actions_dim args))"




section \<open>The class RSSM\<close>

text \<open>
  \<open>dreamer_v1/agent.py\<close>, class \<open>RSSM\<close>. \<open>recurrent_model\<close> is \<open>RecurrentModel.forward\<close>, a
  dense layer followed by a GRU, which returns the recurrent output and the new
  recurrent state; \<open>representation_model\<close> and \<open>transition_model\<close> are the two
  perceptrons.
\<close>

record rssm =
  recurrent_model :: "tensor \<Rightarrow> tensor \<Rightarrow> tensor \<times> tensor"
  representation_model :: "tensor \<Rightarrow> tensor"
  transition_model :: "tensor \<Rightarrow> tensor"
  min_std :: real

text \<open>
  \<^verbatim>\<open>def _representation(self, recurrent_state, embedded_obs):
    posterior_mean_std, posterior = compute_stochastic_state(
        self.representation_model(torch.cat((recurrent_state, embedded_obs), -1)),
        event_shape=1,
        min_std=self.min_std,
    )
    return posterior_mean_std, posterior\<close>
\<close>

definition rssm_representation ::
  "rssm \<Rightarrow> tensor \<Rightarrow> tensor \<Rightarrow> sim \<Rightarrow> ((tensor \<times> tensor) \<times> tensor) \<times> sim" where
  "rssm_representation self recurrent_state embedded_obs s =
     compute_stochastic_state
       (representation_model self (cat_last recurrent_state embedded_obs)) 1 (min_std self)
       (log_call (Posterior recurrent_state embedded_obs) s)"

text \<open>
  \<^verbatim>\<open>def _transition(self, recurrent_out):
    prior_mean_std = self.transition_model(recurrent_out)
    return compute_stochastic_state(prior_mean_std, event_shape=1, min_std=self.min_std)\<close>
\<close>

definition rssm_transition :: "rssm \<Rightarrow> tensor \<Rightarrow> sim \<Rightarrow> ((tensor \<times> tensor) \<times> tensor) \<times> sim" where
  "rssm_transition self recurrent_out s =
     compute_stochastic_state (transition_model self recurrent_out) 1 (min_std self)
       (log_call (Prior recurrent_out) s)"

text \<open>
  \<^verbatim>\<open>def dynamic(self, posterior, recurrent_state, action, embedded_obs):
    recurrent_out, recurrent_state = self.recurrent_model(torch.cat((posterior, action), -1), recurrent_state)
    prior_state_mean_std, prior = self._transition(recurrent_out)
    posterior_mean_std, posterior = self._representation(recurrent_state, embedded_obs)
    return recurrent_state, posterior, prior, posterior_mean_std, prior_state_mean_std\<close>
\<close>

definition dynamic ::
  "rssm \<Rightarrow> tensor \<Rightarrow> tensor \<Rightarrow> tensor \<Rightarrow> tensor \<Rightarrow> sim \<Rightarrow>
   (tensor \<times> tensor \<times> tensor \<times> (tensor \<times> tensor) \<times> (tensor \<times> tensor)) \<times> sim" where
  "dynamic self posterior recurrent_state action embedded_obs s =
     (let (recurrent_out, recurrent_state') =
            recurrent_model self (cat_last posterior action) recurrent_state;
          s1 = log_call (Recurrent posterior action recurrent_state) s;
          ((prior_state_mean_std, prior), s2) = rssm_transition self recurrent_out s1;
          ((posterior_mean_std, posterior'), s3) = rssm_representation self recurrent_state' embedded_obs s2
      in ((recurrent_state', posterior', prior, posterior_mean_std, prior_state_mean_std), s3))"

text \<open>
  \<^verbatim>\<open>def imagination(self, stochastic_state, recurrent_state, actions):
    recurrent_output, recurrent_state = self.recurrent_model(
        torch.cat((stochastic_state, actions), -1), recurrent_state
    )
    _, imagined_prior = self._transition(recurrent_output)
    return imagined_prior, recurrent_state\<close>
\<close>

definition imagination ::
  "rssm \<Rightarrow> tensor \<Rightarrow> tensor \<Rightarrow> tensor \<Rightarrow> sim \<Rightarrow> (tensor \<times> tensor) \<times> sim" where
  "imagination self stochastic_state recurrent_state actions s =
     (let (recurrent_output, recurrent_state') =
            recurrent_model self (cat_last stochastic_state actions) recurrent_state;
          s1 = log_call (Recurrent stochastic_state actions recurrent_state) s;
          ((_, imagined_prior), s2) = rssm_transition self recurrent_output s1
      in ((imagined_prior, recurrent_state'), s2))"

section \<open>Dynamic learning in \<open>dreamer_v2.py\<close>\<close>

text \<open>
  \<open>dreamer_v2.py\<close>, \<open>train\<close>, on the flags \<open>data["is_first"]\<close> of shape
  \<open>(sequence_length, batch_size, 1)\<close>:
  \<^verbatim>\<open>data["is_first"][0, :] = torch.tensor([1.0], device=fabric.device).expand_as(data["is_first"][0, :])\<close>
  The assignment mutates the batch; the model returns the new flags.
\<close>

definition override_first :: "tensor \<Rightarrow> error + tensor" where
  "override_first is_first =
     (case select0 0 is_first of
        Inl e \<Rightarrow> Inl e
      | Inr row \<Rightarrow>
          (case expand_as (tensor1 1) row of
             Inl e \<Rightarrow> Inl e
           | Inr ones \<Rightarrow> setitem0 0 is_first ones))"

text \<open>
  Modelled from the spec: \<open>RSSM.dynamic\<close> of \<open>sheeprl.algos.dreamer_v2.agent\<close>, the method
  that \<open>train\<close> calls with the flags of the timestep; the module is not among the sources.
  The three components are those of the specification: the Recurrent Transition Unit
  (previous stochastic state, action and previous recurrent state to the new recurrent
  state), the Prior Predictor (recurrent state to distribution parameters and a sample)
  and the Posterior Estimator (recurrent state and observation embedding to distribution
  parameters and a sample); the two predictors take the noise of their sample. The
  Dynamics Stepper of the specification:

  \<^enum> If \<open>is_first\<close> is asserted for this timestep, reset the incoming recurrent and
    stochastic state to zero before step 2, per example.
  \<^enum> The Recurrent Transition Unit updates the recurrent state.
  \<^enum> The Prior Predictor computes the prior distribution and a sample.
  \<^enum> The Posterior Estimator computes the posterior distribution and a sample.
  \<^enum> It returns the new recurrent state, the posterior sample, the prior sample and both
    distribution parameters.

  The flags of one timestep have the shape \<open>(1, batch_size, 1)\<close> and a state has the shape
  \<open>(1, batch_size, ...)\<close>: the second position of an index is the example.
\<close>

text \<open>Modelled from the spec: the three components of the stepper.\<close>

record stepper =
  transition_unit :: "tensor \<Rightarrow> tensor \<Rightarrow> tensor \<Rightarrow> tensor"
  prior_predictor :: "tensor \<Rightarrow> tensor \<Rightarrow> tensor \<times> tensor"
  posterior_estimator :: "tensor \<Rightarrow> tensor \<Rightarrow> tensor \<Rightarrow> tensor \<times> tensor"

text \<open>
  Modelled from the spec: step 1, the reset of a state for the examples whose flag is
  asserted, that is, equal to 1.
\<close>

definition reset_where :: "tensor \<Rightarrow> tensor \<Rightarrow> tensor" where
  "reset_where is_first x =
     \<lparr>shape = shape x,
      elem = (\<lambda>idx. case idx of
                _ # b # _ \<Rightarrow> if elem is_first [0, b, 0] = 1 then 0 else elem x idx
              | _ \<Rightarrow> elem x idx)\<rparr>"

text \<open>Modelled from the spec: \<open>RSSM.dynamic\<close> of \<open>dreamer_v2\<close>, the steps 1 to 5.\<close>

definition dynamic_dv2 ::
  "stepper \<Rightarrow> tensor \<Rightarrow> tensor \<Rightarrow> tensor \<Rightarrow> tensor \<Rightarrow> tensor \<Rightarrow> sim \<Rightarrow>
   (tensor \<times> tensor \<times> tensor \<times> tensor \<times> tensor) \<times> sim" where
  "dynamic_dv2 self posterior recurrent_state action embedded_obs is_first s =
     (let posterior0 = reset_where is_first posterior;
          recurrent0 = reset_where is_first recurrent_state;
          recurrent_state' = transition_unit self posterior0 action recurrent0;
          s1 = log_call (Recurrent posterior0 action recurrent0) s;
          (noise1, s2) = draw (log_call (Prior recurrent_state') s1);
          (prior_logits, prior) = prior_predictor self recurrent_state' noise1;
          (noise2, s3) = draw (log_call (Posterior recurrent_state' embedded_obs) s2);
          (posterior_logits, posterior') = posterior_estimator self recurrent_state' embedded_obs noise2
      in ((recurrent_state', posterior', prior, posterior_logits, prior_logits), s3))"

text \<open>
  \<open>dreamer_v2.py\<close>, \<open>train\<close>, the dynamic learning loop:
  \<^verbatim>\<open>recurrent_state = torch.zeros(1, batch_size, args.recurrent_state_size, device=device)
posterior = torch.zeros(1, batch_size, args.stochastic_size, args.discrete_size, device=device)
recurrent_states = torch.zeros(sequence_length, batch_size, args.recurrent_state_size, device=device)
priors_logits = torch.empty(sequence_length, batch_size, stoch_state_size, device=device)
posteriors = torch.empty(sequence_length, batch_size, args.stochastic_size, args.discrete_size, device=device)
posteriors_logits = torch.empty(sequence_length, batch_size, stoch_state_size, device=device)
embedded_obs = world_model.encoder(batch_obs)
for i in range(0, sequence_length):
    recurrent_state, posterior, _, posterior_logits, prior_logits = world_model.rssm.dynamic(
        posterior, recurrent_state, data["actions"][i : i + 1], embedded_obs[i : i + 1], data["is_first"][i : i + 1]
    )
    recurrent_states[i] = recurrent_state
    priors_logits[i] = prior_logits
    posteriors[i] = posterior
    posteriors_logits[i] = posterior_logits\<close>
  The record holds the variables of the loop: \<open>cur_recurrent_state\<close> and \<open>cur_posterior\<close>
  are \<open>recurrent_state\<close> and \<open>posterior\<close>. The encoder is not part of the model, which takes
  the embedded observations.
\<close>

record dv2_sizes =
  batch_size :: nat
  sequence_length :: nat
  dv2_recurrent_state_size :: nat
  dv2_stochastic_size :: nat
  discrete_size :: nat

record dyn_loop =
  cur_recurrent_state :: tensor
  cur_posterior :: tensor
  recurrent_states :: tensor
  priors_logits :: tensor
  posteriors :: tensor
  posteriors_logits :: tensor
  dyn_sim :: sim

definition dyn_init :: "dv2_sizes \<Rightarrow> sim \<Rightarrow> dyn_loop" where
  "dyn_init args s =
     (let stoch_state_size = dv2_stochastic_size args * discrete_size args
      in \<lparr>cur_recurrent_state = zeros [1, batch_size args, dv2_recurrent_state_size args],
          cur_posterior = zeros [1, batch_size args, dv2_stochastic_size args, discrete_size args],
          recurrent_states = zeros [sequence_length args, batch_size args, dv2_recurrent_state_size args],
          priors_logits = empty_tensor [sequence_length args, batch_size args, stoch_state_size] s,
          posteriors = empty_tensor [sequence_length args, batch_size args, dv2_stochastic_size args,
                                     discrete_size args] s,
          posteriors_logits = empty_tensor [sequence_length args, batch_size args, stoch_state_size] s,
          dyn_sim = s\<rparr>)"

definition dyn_body :: "stepper \<Rightarrow> tensor \<Rightarrow> tensor \<Rightarrow> tensor \<Rightarrow> dyn_loop \<Rightarrow> nat \<Rightarrow> dyn_loop" where
  "dyn_body rssm actions embedded_obs is_first st i =
     (let ((recurrent_state, posterior, _, posterior_logits, prior_logits), s) =
            dynamic_dv2 rssm (cur_posterior st) (cur_recurrent_state st)
              (slice0 (Some (int i)) (Some (int i + 1)) actions)
              (slice0 (Some (int i)) (Some (int i + 1)) embedded_obs)
              (slice0 (Some (int i)) (Some (int i + 1)) is_first)
              (dyn_sim st)
      in \<lparr>cur_recurrent_state = recurrent_state,
          cur_posterior = posterior,
          recurrent_states = set_row i (recurrent_states st) recurrent_state,
          priors_logits = set_row i (priors_logits st) prior_logits,
          posteriors = set_row i (posteriors st) posterior,
          posteriors_logits = set_row i (posteriors_logits st) posterior_logits,
          dyn_sim = s\<rparr>)"

text \<open>
  \<open>dyn_loop_upto ... n\<close> holds the variables of the loop when the iterations
  \<open>0, ..., n - 1\<close> have run, which is when iteration \<open>n\<close> begins.
\<close>

definition dyn_loop_upto ::
  "stepper \<Rightarrow> dv2_sizes \<Rightarrow> tensor \<Rightarrow> tensor \<Rightarrow> tensor \<Rightarrow> sim \<Rightarrow> nat \<Rightarrow> dyn_loop" where
  "dyn_loop_upto rssm args actions embedded_obs is_first s n =
     foldl (dyn_body rssm actions embedded_obs is_first) (dyn_init args s) [0..<n]"

definition dynamic_learning ::
  "stepper \<Rightarrow> dv2_sizes \<Rightarrow> tensor \<Rightarrow> tensor \<Rightarrow> tensor \<Rightarrow> sim \<Rightarrow> error + dyn_loop" where
  "dynamic_learning rssm args actions embedded_obs is_first s =
     (case override_first is_first of
        Inl e \<Rightarrow> Inl e
      | Inr is_first' \<Rightarrow>
          Inr (dyn_loop_upto rssm args actions embedded_obs is_first' s (sequence_length args)))"

section \<open>The imagination rollouts\<close>

text \<open>
  The actor is a class that is not among the sources. In the model it is a function of
  the latent state and of the noise of its sample to the actions, concatenated on the
  last dimension (in \<open>dreamer_v2.py\<close>, \<open>torch.cat(actor(...)[0], dim=-1)\<close>).

  Both rollouts call \<open>world_model.rssm.imagination\<close>. The loops are modelled for any
  imagination step \<open>imagine\<close>; the step of the class \<open>RSSM\<close> above is \<open>imagination\<close>.
\<close>

definition call_actor :: "(tensor \<Rightarrow> tensor \<Rightarrow> tensor) \<Rightarrow> tensor \<Rightarrow> sim \<Rightarrow> tensor \<times> sim" where
  "call_actor actor latent s =
     (let (noise, s1) = draw (log_call (Actor latent) s) in (actor latent noise, s1))"

text \<open>
  \<open>WorldModel\<close> of \<open>dreamer_v1/agent.py\<close>, with the members that the rollouts and the
  predictions after them read.
\<close>

record world_model =
  wm_rssm :: rssm
  reward_model :: "tensor \<Rightarrow> tensor"
  continue_model :: "(tensor \<Rightarrow> tensor) option"

text \<open>
  The variables of a rollout: \<open>cur_prior\<close>, \<open>cur_recurrent\<close> and \<open>cur_latent\<close> are
  \<open>imagined_prior\<close>, \<open>recurrent_state\<close> and \<open>imagined_latent_state\<close>; \<open>last_actions\<close> is
  \<open>actions\<close>, the value of the latest sample.
\<close>

record roll =
  cur_prior :: tensor
  cur_recurrent :: tensor
  cur_latent :: tensor
  last_actions :: tensor
  imagined_trajectories :: tensor
  imagined_actions :: tensor
  roll_sim :: sim

text \<open>
  \<open>dreamer_v2.py\<close>, \<open>train\<close>, from the seed \<open>imagined_prior\<close> and \<open>recurrent_state\<close>, both of
  shape \<open>(1, n, ...)\<close> with \<open>n = batch_size * sequence_length\<close>:
  \<^verbatim>\<open>imagined_latent_state = torch.cat((imagined_prior, recurrent_state), -1)
imagined_trajectories = torch.empty(
    args.horizon + 1, batch_size * sequence_length, stoch_state_size + args.recurrent_state_size, device=device)
imagined_trajectories[0] = imagined_latent_state
imagined_actions = torch.empty(
    args.horizon + 1, batch_size * sequence_length, data["actions"].shape[-1], device=device)
imagined_actions[0] = torch.zeros(1, batch_size * sequence_length, data["actions"].shape[-1])
for i in range(1, args.horizon + 1):
    actions = torch.cat(actor(imagined_latent_state.detach())[0], dim=-1)
    imagined_actions[i] = actions
    imagined_prior, recurrent_state = world_model.rssm.imagination(imagined_prior, recurrent_state, actions)
    imagined_prior = imagined_prior.view(1, -1, stoch_state_size)
    imagined_latent_state = torch.cat((imagined_prior, recurrent_state), -1)
    imagined_trajectories[i] = imagined_latent_state\<close>
\<close>

definition roll_init :: "nat \<Rightarrow> nat \<Rightarrow> nat \<Rightarrow> nat \<Rightarrow> tensor \<Rightarrow> tensor \<Rightarrow> sim \<Rightarrow> roll" where
  "roll_init horizon n latent_size action_size imagined_prior recurrent_state s =
     (let imagined_latent_state = cat_last imagined_prior recurrent_state
      in \<lparr>cur_prior = imagined_prior,
          cur_recurrent = recurrent_state,
          cur_latent = imagined_latent_state,
          last_actions = zeros [1, n, action_size],
          imagined_trajectories =
            set_row 0 (empty_tensor [horizon + 1, n, latent_size] s) imagined_latent_state,
          imagined_actions =
            set_row 0 (empty_tensor [horizon + 1, n, action_size] s) (zeros [1, n, action_size]),
          roll_sim = s\<rparr>)"

definition roll_body ::
  "(tensor \<Rightarrow> tensor \<Rightarrow> tensor) \<Rightarrow> (tensor \<Rightarrow> tensor \<Rightarrow> tensor \<Rightarrow> sim \<Rightarrow> (tensor \<times> tensor) \<times> sim) \<Rightarrow>
   nat \<Rightarrow> roll \<Rightarrow> nat \<Rightarrow> roll" where
  "roll_body actor imagine stoch_state_size st i =
     (let (actions, s1) = call_actor actor (cur_latent st) (roll_sim st);
          ((imagined_prior, recurrent_state), s2) = imagine (cur_prior st) (cur_recurrent st) actions s1;
          imagined_prior' = view_1_n imagined_prior stoch_state_size;
          imagined_latent_state = cat_last imagined_prior' recurrent_state
      in \<lparr>cur_prior = imagined_prior',
          cur_recurrent = recurrent_state,
          cur_latent = imagined_latent_state,
          last_actions = actions,
          imagined_trajectories = set_row i (imagined_trajectories st) imagined_latent_state,
          imagined_actions = set_row i (imagined_actions st) actions,
          roll_sim = s2\<rparr>)"

text \<open>
  \<open>roll_upto ... k\<close> holds the variables when the iterations \<open>i = 1, ..., k\<close> have run; the
  rollout runs all \<open>horizon\<close> of them.
\<close>

definition roll_upto ::
  "(tensor \<Rightarrow> tensor \<Rightarrow> tensor) \<Rightarrow> (tensor \<Rightarrow> tensor \<Rightarrow> tensor \<Rightarrow> sim \<Rightarrow> (tensor \<times> tensor) \<times> sim) \<Rightarrow>
   nat \<Rightarrow> roll \<Rightarrow> nat \<Rightarrow> roll" where
  "roll_upto actor imagine stoch_state_size init k =
     foldl (roll_body actor imagine stoch_state_size) init [1..<k + 1]"

definition imagine_dv2 ::
  "(tensor \<Rightarrow> tensor \<Rightarrow> tensor) \<Rightarrow> (tensor \<Rightarrow> tensor \<Rightarrow> tensor \<Rightarrow> sim \<Rightarrow> (tensor \<times> tensor) \<times> sim) \<Rightarrow>
   nat \<Rightarrow> nat \<Rightarrow> nat \<Rightarrow> nat \<Rightarrow> nat \<Rightarrow> tensor \<Rightarrow> tensor \<Rightarrow> sim \<Rightarrow> roll" where
  "imagine_dv2 actor imagine horizon n stoch_state_size recurrent_size action_size
     imagined_prior recurrent_state s =
     roll_upto actor imagine stoch_state_size
       (roll_init horizon n (stoch_state_size + recurrent_size) action_size imagined_prior recurrent_state s)
       horizon"

text \<open>
  \<open>p2e.py\<close>, \<open>train\<close>, from the seed \<open>imagined_stochastic_state\<close> and \<open>recurrent_state\<close>:
  \<^verbatim>\<open>imagined_latent_states = torch.cat((imagined_stochastic_state, recurrent_state), -1)
imagined_trajectories = torch.empty(
    args.horizon, batch_size * sequence_length, args.stochastic_size + args.recurrent_state_size, device=device)
all_actions = torch.zeros(args.horizon, batch_size * sequence_length, data["actions"].shape[-1], device=device)
for i in range(args.horizon):
    actions = actor(imagined_latent_states.detach())
    all_actions[0] = actions
    imagined_stochastic_state, recurrent_state = world_model.rssm.imagination(
        imagined_stochastic_state, recurrent_state, actions)
    imagined_latent_states = torch.cat((imagined_stochastic_state, recurrent_state), -1)
    imagined_trajectories[i] = imagined_latent_states\<close>
  The record is the one of the rollout above; \<open>imagined_actions\<close> is \<open>all_actions\<close>. Row 0 of
  \<open>all_actions\<close> exists in every iteration, since the loop runs for a positive horizon
  only.
\<close>

definition roll_init_p2e :: "nat \<Rightarrow> nat \<Rightarrow> nat \<Rightarrow> nat \<Rightarrow> tensor \<Rightarrow> tensor \<Rightarrow> sim \<Rightarrow> roll" where
  "roll_init_p2e horizon n latent_size action_size imagined_stochastic_state recurrent_state s =
     \<lparr>cur_prior = imagined_stochastic_state,
      cur_recurrent = recurrent_state,
      cur_latent = cat_last imagined_stochastic_state recurrent_state,
      last_actions = zeros [1, n, action_size],
      imagined_trajectories = empty_tensor [horizon, n, latent_size] s,
      imagined_actions = zeros [horizon, n, action_size],
      roll_sim = s\<rparr>"

definition roll_body_p2e ::
  "(tensor \<Rightarrow> tensor \<Rightarrow> tensor) \<Rightarrow> (tensor \<Rightarrow> tensor \<Rightarrow> tensor \<Rightarrow> sim \<Rightarrow> (tensor \<times> tensor) \<times> sim) \<Rightarrow>
   roll \<Rightarrow> nat \<Rightarrow> roll" where
  "roll_body_p2e actor imagine st i =
     (let (actions, s1) = call_actor actor (cur_latent st) (roll_sim st);
          ((imagined_stochastic_state, recurrent_state), s2) =
            imagine (cur_prior st) (cur_recurrent st) actions s1;
          imagined_latent_states = cat_last imagined_stochastic_state recurrent_state
      in \<lparr>cur_prior = imagined_stochastic_state,
          cur_recurrent = recurrent_state,
          cur_latent = imagined_latent_states,
          last_actions = actions,
          imagined_trajectories = set_row i (imagined_trajectories st) imagined_latent_states,
          imagined_actions = set_row 0 (imagined_actions st) actions,
          roll_sim = s2\<rparr>)"

definition roll_upto_p2e ::
  "(tensor \<Rightarrow> tensor \<Rightarrow> tensor) \<Rightarrow> (tensor \<Rightarrow> tensor \<Rightarrow> tensor \<Rightarrow> sim \<Rightarrow> (tensor \<times> tensor) \<times> sim) \<Rightarrow>
   roll \<Rightarrow> nat \<Rightarrow> roll" where
  "roll_upto_p2e actor imagine init k = foldl (roll_body_p2e actor imagine) init [0..<k]"

definition imagine_p2e ::
  "(tensor \<Rightarrow> tensor \<Rightarrow> tensor) \<Rightarrow> (tensor \<Rightarrow> tensor \<Rightarrow> tensor \<Rightarrow> sim \<Rightarrow> (tensor \<times> tensor) \<times> sim) \<Rightarrow>
   nat \<Rightarrow> nat \<Rightarrow> nat \<Rightarrow> nat \<Rightarrow> tensor \<Rightarrow> tensor \<Rightarrow> sim \<Rightarrow> roll" where
  "imagine_p2e actor imagine horizon n latent_size action_size imagined_stochastic_state recurrent_state s =
     roll_upto_p2e actor imagine
       (roll_init_p2e horizon n latent_size action_size imagined_stochastic_state recurrent_state s)
       horizon"

text \<open>The kind of a logged call.\<close>

datatype call_kind = ActorCall | RecurrentCall | PriorCall | PosteriorCall

fun kind_of :: "call \<Rightarrow> call_kind" where
  "kind_of (Actor _) = ActorCall"
| "kind_of (Recurrent _ _ _) = RecurrentCall"
| "kind_of (Prior _) = PriorCall"
| "kind_of (Posterior _ _) = PosteriorCall"

definition new_calls :: "sim \<Rightarrow> sim \<Rightarrow> call_kind list" where
  "new_calls s s' = map kind_of (drop (length (calls s)) (calls s'))"

text \<open>
  The Imagination Roller as the specification words it (4.5), to compare the loops with:
  "For \<open>i = 1..H\<close>: sample \<open>action\<^sub>i ~ \<pi>(latent\<^sub>i\<^sub>-\<^sub>1)\<close>; apply Recurrent Transition Unit + Prior
  Predictor to get \<open>latent\<^sub>i\<close>". \<open>spec_state ... i\<close> is the latent state after \<open>i\<close> imagined
  steps from the seed, as its stochastic and recurrent parts, with the effects so far;
  the step is the imagination step \<open>imagine\<close>, and \<open>post\<close> is what the caller does to the
  stochastic part it returns (the view of \<open>dreamer_v2.py\<close>, nothing in \<open>p2e.py\<close>).
  \<open>spec_latent ... i\<close> is \<open>latent\<^sub>i\<close> and \<open>spec_action ... i\<close> is the action sampled from
  \<open>latent\<^sub>i\<close>, which is \<open>action\<^sub>i\<^sub>+\<^sub>1\<close>.
\<close>

primrec spec_state ::
  "(tensor \<Rightarrow> tensor \<Rightarrow> tensor) \<Rightarrow> (tensor \<Rightarrow> tensor \<Rightarrow> tensor \<Rightarrow> sim \<Rightarrow> (tensor \<times> tensor) \<times> sim) \<Rightarrow>
   (tensor \<Rightarrow> tensor) \<Rightarrow> tensor \<Rightarrow> tensor \<Rightarrow> sim \<Rightarrow> nat \<Rightarrow> tensor \<times> tensor \<times> sim" where
  "spec_state actor imagine post seed_stochastic seed_recurrent s 0 = (seed_stochastic, seed_recurrent, s)"
| "spec_state actor imagine post seed_stochastic seed_recurrent s (Suc i) =
     (let (z, h, s0) = spec_state actor imagine post seed_stochastic seed_recurrent s i;
          (action, s1) = call_actor actor (cat_last z h) s0;
          ((z', h'), s2) = imagine z h action s1
      in (post z', h', s2))"

definition spec_latent ::
  "(tensor \<Rightarrow> tensor \<Rightarrow> tensor) \<Rightarrow> (tensor \<Rightarrow> tensor \<Rightarrow> tensor \<Rightarrow> sim \<Rightarrow> (tensor \<times> tensor) \<times> sim) \<Rightarrow>
   (tensor \<Rightarrow> tensor) \<Rightarrow> tensor \<Rightarrow> tensor \<Rightarrow> sim \<Rightarrow> nat \<Rightarrow> tensor" where
  "spec_latent actor imagine post seed_stochastic seed_recurrent s i =
     (let (z, h, s0) = spec_state actor imagine post seed_stochastic seed_recurrent s i in cat_last z h)"

definition spec_action ::
  "(tensor \<Rightarrow> tensor \<Rightarrow> tensor) \<Rightarrow> (tensor \<Rightarrow> tensor \<Rightarrow> tensor \<Rightarrow> sim \<Rightarrow> (tensor \<times> tensor) \<times> sim) \<Rightarrow>
   (tensor \<Rightarrow> tensor) \<Rightarrow> tensor \<Rightarrow> tensor \<Rightarrow> sim \<Rightarrow> nat \<Rightarrow> tensor" where
  "spec_action actor imagine post seed_stochastic seed_recurrent s i =
     (let (z, h, s0) = spec_state actor imagine post seed_stochastic seed_recurrent s i
      in fst (call_actor actor (cat_last z h) s0))"

section \<open>Concrete inputs\<close>

text \<open>
  Small networks and tensors for two examples, used to run the definitions: a generator
  whose noise is zero, predictors that emit the mean 1 and the raw standard deviation 0
  for every example, and an actor that always samples the action 1.
\<close>

definition example_sim :: sim where
  "example_sim = \<lparr>calls = [], randn = (\<lambda>k. zeros [1, 2, 1]), draws = 0, fresh = (\<lambda>idx. 0)\<rparr>"

definition example_raw :: tensor where
  "example_raw = cat_last (full [1, 2, 1] 1) (full [1, 2, 1] 0)"

definition example_rssm :: rssm where
  "example_rssm =
     \<lparr>recurrent_model = (\<lambda>x h. (full [1, 2, 1] 3, full [1, 2, 1] 3)),
      representation_model = (\<lambda>x. example_raw),
      transition_model = (\<lambda>x. example_raw),
      min_std = 1 / 2\<rparr>"

definition example_actor :: "tensor \<Rightarrow> tensor \<Rightarrow> tensor" where
  "example_actor latent noise = full [1, 2, 1] 1"

definition example_stepper :: stepper where
  "example_stepper =
     \<lparr>transition_unit = (\<lambda>p a r. full [1, 2, 1] 7),
      prior_predictor = (\<lambda>r noise. (r, r)),
      posterior_estimator = (\<lambda>r e noise. (r, full [1, 2, 1, 1] 5))\<rparr>"

definition example_sizes :: dv2_sizes where
  "example_sizes =
     \<lparr>batch_size = 2, sequence_length = 2, dv2_recurrent_state_size = 1, dv2_stochastic_size = 1,
      discrete_size = 1\<rparr>"

text \<open>Flags of two timesteps and two examples: only example 0 is flagged at timestep 1.\<close>

definition example_is_first :: tensor where
  "example_is_first = \<lparr>shape = [2, 2, 1], elem = (\<lambda>idx. if idx = [1, 0, 0] then 1 else 0)\<rparr>"

section \<open>The player\<close>

text \<open>
  \<open>dreamer_v1/agent.py\<close>, class \<open>PlayerDV1\<close>: the networks of the player, the state that it
  carries across the steps of the live environments, and the sizes it was built with.
  Each state tensor has the shape \<open>(1, num_envs, size)\<close>.
\<close>

record player =
  encoder :: "tensor \<Rightarrow> tensor"
  recurrent_model :: "tensor \<Rightarrow> tensor \<Rightarrow> tensor \<times> tensor"
  representation_model :: "tensor \<Rightarrow> tensor"
  actor :: "tensor \<Rightarrow> tensor \<Rightarrow> tensor"
  actions :: tensor
  recurrent_state :: tensor
  stochastic_state :: tensor
  actions_dim :: "nat list"
  stochastic_size :: nat
  recurrent_state_size :: nat
  num_envs :: nat

text \<open>
  \<^verbatim>\<open>def init_states(self, reset_envs: Optional[Sequence[int]] = None) -> None:
    if reset_envs is None or len(reset_envs) == 0:
        self.actions = torch.zeros(1, self.num_envs, np.sum(self.actions_dim), device=self.device)
        self.recurrent_state = torch.zeros(1, self.num_envs, self.recurrent_state_size, device=self.device)
        self.stochastic_state = torch.zeros(1, self.num_envs, self.stochastic_size, device=self.device)
    else:
        self.actions[:, reset_envs] = torch.zeros_like(self.actions[:, reset_envs])
        self.recurrent_state[:, reset_envs] = torch.zeros_like(self.recurrent_state[:, reset_envs])
        self.stochastic_state[:, reset_envs] = torch.zeros_like(self.stochastic_state[:, reset_envs])\<close>
  The method mutates the player; the model returns the new player, or the exception that
  the first failing assignment raises.
\<close>

definition init_states :: "player \<Rightarrow> int list option \<Rightarrow> error + player" where
  "init_states self reset_envs =
     (if reset_envs = None \<or> length (the reset_envs) = 0
      then Inr (self\<lparr>actions := zeros [1, num_envs self, sum_list (actions_dim self)],
                     recurrent_state := zeros [1, num_envs self, recurrent_state_size self],
                     stochastic_state := zeros [1, num_envs self, stochastic_size self]\<rparr>)
      else
        (case zero_dim1 (actions self) (the reset_envs) of
           Inl e \<Rightarrow> Inl e
         | Inr a \<Rightarrow>
             (case zero_dim1 (recurrent_state self) (the reset_envs) of
                Inl e \<Rightarrow> Inl e
              | Inr r \<Rightarrow>
                  (case zero_dim1 (stochastic_state self) (the reset_envs) of
                     Inl e \<Rightarrow> Inl e
                   | Inr s \<Rightarrow> Inr (self\<lparr>actions := a, recurrent_state := r, stochastic_state := s\<rparr>)))))"

text \<open>
  \<^verbatim>\<open>def get_greedy_action(self, obs, is_training=True, mask=None):
    embedded_obs = self.encoder(obs)
    _, self.recurrent_state = self.recurrent_model(
        torch.cat((self.stochastic_state, self.actions), -1), self.recurrent_state
    )
    _, self.stochastic_state = compute_stochastic_state(
        self.representation_model(torch.cat((self.recurrent_state, embedded_obs), -1))
    )
    actions, _ = self.actor(torch.cat((self.stochastic_state, self.recurrent_state), -1), is_training, mask)
    self.actions = torch.cat(actions, -1)
    return actions\<close>
  The call of \<open>compute_stochastic_state\<close> passes neither \<open>event_shape\<close> nor \<open>min_std\<close>: the
  utility runs with the defaults of its declaration, which is not among the sources.
  The two defaults are parameters of the model. \<open>greedy_posterior\<close> is the first half of
  the method, up to the result of the utility, whose distribution parameters the method
  drops.
\<close>

definition greedy_posterior ::
  "nat \<Rightarrow> real \<Rightarrow> player \<Rightarrow> tensor \<Rightarrow> sim \<Rightarrow> (((tensor \<times> tensor) \<times> tensor) \<times> tensor) \<times> sim" where
  "greedy_posterior default_event_shape default_min_std self obs s =
     (let embedded_obs = encoder self obs;
          (_, h) = recurrent_model self (cat_last (stochastic_state self) (actions self)) (recurrent_state self);
          s1 = log_call (Recurrent (stochastic_state self) (actions self) (recurrent_state self)) s;
          (posterior, s2) =
            compute_stochastic_state (representation_model self (cat_last h embedded_obs))
              default_event_shape default_min_std (log_call (Posterior h embedded_obs) s1)
      in ((posterior, h), s2))"

definition get_greedy_action ::
  "nat \<Rightarrow> real \<Rightarrow> player \<Rightarrow> tensor \<Rightarrow> sim \<Rightarrow> (tensor \<times> player) \<times> sim" where
  "get_greedy_action default_event_shape default_min_std self obs s =
     (let (((_, z), h), s2) = greedy_posterior default_event_shape default_min_std self obs s;
          (a, s3) = call_actor (actor self) (cat_last z h) s2
      in ((a, self\<lparr>actions := a, recurrent_state := h, stochastic_state := z\<rparr>), s3))"

definition example_player :: player where
  "example_player =
     \<lparr>encoder = (\<lambda>obs. obs),
      recurrent_model = rssm.recurrent_model example_rssm,
      representation_model = rssm.representation_model example_rssm,
      actor = example_actor,
      actions = full [1, 2, 1] 7,
      recurrent_state = full [1, 2, 1] 8,
      stochastic_state = full [1, 2, 1] 9,
      actions_dim = [1],
      stochastic_size = 1,
      recurrent_state_size = 1,
      num_envs = 2\<rparr>"

section \<open>Facts about the tensor operations\<close>

lemma cumprod_at_shift:
  "cumprod_at (\<lambda>k. if k < 1 then 1 else g (k - 1)) t = (\<Prod>k<t. g k)"
  by (induction t) simp_all

lemma slice_index_simps:
  "slice_index n 1 = min n 1" "slice_index n (- 1) = n - 1" "slice_index n (- 2) = n - 2"
  by (auto simp: slice_index_def)

lemma discount_shape:
  assumes "shape c = n # rest" "0 < n"
  shows "shape (discount c) = n # rest"
  using assms by (simp add: discount_def cumprod0_def cat0_def ones_like_def slice0_def slice_index_simps Let_def)

lemma discount_elem:
  assumes "shape c = n # rest" "0 < n"
  shows "elem (discount c) (t # idx) = (\<Prod>k<t. elem c (k # idx))"
proof -
  have "elem (discount c) (t # idx) = cumprod_at (\<lambda>k. if k < 1 then 1 else elem c ((k - 1) # idx)) t"
    using assms by (simp add: discount_def cumprod0_def cat0_def ones_like_def slice0_def slice_index_simps Let_def cong: if_cong)
  then show ?thesis using cumprod_at_shift[of "\<lambda>k. elem c (k # idx)" t] by simp
qed

lemma discount_p2e_elem:
  assumes "shape c = n # rest" "0 < n"
  shows "elem (discount_p2e c) (t # idx) = (\<Prod>k<t. elem c (k # idx))"
proof -
  have "elem (discount_p2e c) (t # idx) = cumprod_at (\<lambda>k. if k < 1 then 1 else elem c ((k - 1) # idx)) t"
    using assms by (simp add: discount_p2e_def cumprod0_def cat0_def ones_like_def slice0_def slice_index_simps Let_def cong: if_cong)
  then show ?thesis using cumprod_at_shift[of "\<lambda>k. elem c (k # idx)" t] by simp
qed

lemma discount_p2e_shape:
  assumes "shape c = n # rest" "0 < n"
  shows "shape (discount_p2e c) = (1 + (n - 2)) # rest"
  using assms by (simp add: discount_p2e_def cumprod0_def cat0_def ones_like_def slice0_def slice_index_simps Let_def)

lemma discount_example:
  "map (\<lambda>t. elem (discount (series [0.99, 0.99, 0.99, 0.99])) [t, 0, 0]) [0, 1, 2, 3] = [1, 0.99, 0.9801, 0.970299]"
  by (simp add: discount_def cumprod0_def cat0_def ones_like_def slice0_def slice_index_simps Let_def series_def eval_nat_numeral)

lemma broadcast_rev_same: "broadcast_rev s s = Some s"
  by (induction s) auto

lemma broadcast_shapes_same: "broadcast_shapes s s = Some s"
  by (simp add: broadcast_shapes_def broadcast_rev_same)

lemma indices_bounds:
  "idx \<in> set (indices s) \<Longrightarrow> length idx = length s \<and> (\<forall>k<length s. idx ! k < s ! k)"
proof (induction s arbitrary: idx)
  case Nil then show ?case by simp
next
  case (Cons n ns)
  then obtain i r where ir: "idx = i # r" "i < n" "r \<in> set (indices ns)" by auto
  with Cons.IH[of r] show ?case by (auto simp: nth_Cons split: nat.splits)
qed

lemma bidx_same:
  assumes "length idx = length s" "\<forall>k<length s. idx ! k < s ! k"
  shows "bidx s idx = idx"
  using assms unfolding bidx_def
  by (auto intro!: nth_equalityI)


lemma sum_list_map_cong:
  "(\<And>x. x \<in> set xs \<Longrightarrow> f x = g x) \<Longrightarrow> (\<Sum>x\<leftarrow>xs. f x) = (\<Sum>x\<leftarrow>xs. (g x :: real))"
  by (induction xs) auto

lemma broadcast_op_same:
  assumes "shape a = s" "shape b = s"
  shows "broadcast_op f a b = Inr \<lparr>shape = s, elem = (\<lambda>idx. f (elem a (bidx s idx)) (elem b (bidx s idx)))\<rparr>"
  using assms by (simp add: broadcast_op_def broadcast_shapes_same)

lemma mean_cong:
  assumes "shape w = s" "\<And>idx. idx \<in> set (indices s) \<Longrightarrow> elem w idx = g idx"
  shows "torch_mean w = (\<Sum>idx\<leftarrow>indices s. g idx) / real (prod_list s)"
  using assms by (simp add: torch_mean_def sum_list_map_cong[of "indices s" "elem w" g])

lemma policy_loss_weighted:
  assumes "shape objective = [h, n, 1]" "shape entropy = [h, n]" "shape continues = [h + 2, n, 1]"
  shows "policy_loss (discount continues) objective entropy =
         Inr (- ((\<Sum>idx\<leftarrow>indices [h, n, 1].
                    (\<Prod>k<hd idx. elem continues (k # tl idx)) * (elem objective idx + elem entropy (butlast idx)))
                 / real (h * n)))"
proof -
  let ?s = "[h, n, 1]"
  let ?d = "slice0 None (Some (- 2)) (discount continues)"
  let ?g = "\<lambda>idx. (\<Prod>k<hd idx. elem continues (k # tl idx)) * (elem objective idx + elem entropy (butlast idx))"
  have ds: "shape (discount continues) = [h + 2, n, 1]"
    using discount_shape[OF assms(3)] by simp
  have sd: "shape ?d = ?s"
    using ds by (simp add: slice0_def slice_index_simps Let_def)
  have ed: "elem ?d (i # r) = (\<Prod>k<i. elem continues (k # r))" for i r
    using ds discount_elem[OF assms(3), of i r] by (simp add: slice0_def Let_def)
  have su: "shape (unsqueeze_last entropy) = ?s"
    using assms(2) by (simp add: unsqueeze_last_def)
  obtain sm where sm: "add objective (unsqueeze_last entropy) = Inr sm" "shape sm = ?s"
    "\<And>idx. elem sm idx = elem objective (bidx ?s idx) + elem entropy (butlast (bidx ?s idx))"
    using broadcast_op_same[OF assms(1) su, of "(+)"] by (simp add: add_def unsqueeze_last_def)
  obtain w where w: "mul ?d sm = Inr w" "shape w = ?s"
    "\<And>idx. elem w idx = elem ?d (bidx ?s idx) * elem sm (bidx ?s idx)"
    using broadcast_op_same[OF sd sm(2), of "(*)"] by (simp add: mul_def)
  have el: "elem w idx = ?g idx" if "idx \<in> set (indices ?s)" for idx
  proof -
    from indices_bounds[OF that] have b: "bidx ?s idx = idx" by (intro bidx_same) auto
    from indices_bounds[OF that] obtain i r where "idx = i # r" by (cases idx) auto
    then show ?thesis using w(3)[of idx] sm(3)[of idx] b ed[of i r] by simp
  qed
  have "torch_mean w = (\<Sum>idx\<leftarrow>indices ?s. ?g idx) / real (prod_list ?s)"
    by (rule mean_cong[OF w(2) el])
  moreover have "policy_loss (discount continues) objective entropy = Inr (- torch_mean w)"
    using sm(1) w(1) by (simp add: policy_loss_def)
  moreover have "prod_list ?s = h * n" by simp
  ultimately show ?thesis by (simp only:)
qed

lemma value_loss_weighted:
  assumes "shape log_prob = [h, n]" "shape continues = [h + 1, n, 1]"
  shows "value_loss (discount continues) log_prob =
         Inr (- ((\<Sum>idx\<leftarrow>indices [h, n].
                    (\<Prod>k<hd idx. elem continues (k # tl idx @ [0])) * elem log_prob idx)
                 / real (h * n)))"
proof -
  let ?s = "[h, n]"
  let ?d = "select_last0 (slice0 None (Some (- 1)) (discount continues))"
  let ?g = "\<lambda>idx. (\<Prod>k<hd idx. elem continues (k # tl idx @ [0])) * elem log_prob idx"
  have ds: "shape (discount continues) = [h + 1, n, 1]"
    using discount_shape[OF assms(2)] by simp
  have sd: "shape ?d = ?s"
    using ds by (simp add: select_last0_def slice0_def slice_index_simps Let_def)
  have ed: "elem ?d (i # r) = (\<Prod>k<i. elem continues (k # r @ [0]))" for i r
    using ds discount_elem[OF assms(2), of i "r @ [0]"] by (simp add: select_last0_def slice0_def Let_def)
  obtain w where w: "mul ?d log_prob = Inr w" "shape w = ?s"
    "\<And>idx. elem w idx = elem ?d (bidx ?s idx) * elem log_prob (bidx ?s idx)"
    using broadcast_op_same[OF sd assms(1), of "(*)"] by (simp add: mul_def)
  have el: "elem w idx = ?g idx" if "idx \<in> set (indices ?s)" for idx
  proof -
    from indices_bounds[OF that] have b: "bidx ?s idx = idx" by (intro bidx_same) auto
    from indices_bounds[OF that] obtain i r where "idx = i # r" by (cases idx) auto
    then show ?thesis using w(3)[of idx] b ed[of i r] by simp
  qed
  have "torch_mean w = (\<Sum>idx\<leftarrow>indices ?s. ?g idx) / real (prod_list ?s)"
    by (rule mean_cong[OF w(2) el])
  moreover have "value_loss (discount continues) log_prob = Inr (- torch_mean w)"
    using w(1) by (simp add: value_loss_def)
  moreover have "prod_list ?s = h * n" by simp
  ultimately show ?thesis by (simp only:)
qed

lemma actor_loss_input_p2e_weighted:
  assumes "shape done_mask = Suc (Suc m) # rest" "shape lambda_values = Suc m # rest"
  shows "\<exists>w. actor_loss_input_p2e done_mask lambda_values = Inr w \<and> shape w = Suc m # rest \<and>
           (\<forall>idx\<in>set (indices (Suc m # rest)).
              elem w idx = (\<Prod>k<hd idx. elem done_mask (k # tl idx)) * elem lambda_values idx)"
proof -
  let ?s = "Suc m # rest"
  have sd: "shape (discount_p2e done_mask) = ?s"
    using discount_p2e_shape[OF assms(1)] by simp
  have ed: "elem (discount_p2e done_mask) (i # r) = (\<Prod>k<i. elem done_mask (k # r))" for i r
    using discount_p2e_elem[OF assms(1)] by simp
  obtain w where w: "mul (discount_p2e done_mask) lambda_values = Inr w" "shape w = ?s"
    "\<And>idx. elem w idx = elem (discount_p2e done_mask) (bidx ?s idx) * elem lambda_values (bidx ?s idx)"
    using broadcast_op_same[OF sd assms(2), of "(*)"] by (simp add: mul_def)
  have "elem w idx = (\<Prod>k<hd idx. elem done_mask (k # tl idx)) * elem lambda_values idx"
    if "idx \<in> set (indices ?s)" for idx
  proof -
    from indices_bounds[OF that] have b: "bidx ?s idx = idx" by (intro bidx_same) auto
    from indices_bounds[OF that] obtain i r where "idx = i # r" by (cases idx) auto
    then show ?thesis using w(3)[of idx] b ed[of i r] by simp
  qed
  then show ?thesis using w(1,2) by (auto simp: actor_loss_input_p2e_def)
qed

section \<open>Facts about the lambda returns\<close>

lemma lambda_loop_unchanged:
  "k \<le> i \<Longrightarrow> lambda_loop R V C B H l k buf (i # rest) = buf (i # rest)"
  by (induction k arbitrary: buf) simp_all

lemma lambda_loop_rec:
  "i < k \<Longrightarrow> lambda_loop R V C B H l k buf (i # rest) =
     elem R (i # rest) + elem C (i # rest) *
       ((1 - l) * next_value V B H i rest + l * lambda_loop R V C B H l k buf (Suc i # rest))"
proof (induction k arbitrary: buf)
  case 0 then show ?case by simp
next
  case (Suc k)
  show ?case
  proof (cases "i = k")
    case True
    then show ?thesis by (simp add: lambda_loop_unchanged)
  next
    case False
    with Suc.prems have "i < k" by simp
    from Suc.IH[OF this] show ?thesis by simp
  qed
qed

lemma compute_lambda_values_rec:
  assumes "t < H"
  shows "elem (compute_lambda_values R V C B H l) (t # rest) =
     elem R (t # rest) + elem C (t # rest) *
       ((1 - l) * next_value V B H t rest +
        l * (if Suc t = H then bootstrap_at B rest else elem (compute_lambda_values R V C B H l) (Suc t # rest)))"
proof -
  have "elem (compute_lambda_values R V C B H l) (H # rest) = bootstrap_at B rest"
    by (simp add: compute_lambda_values_def lambda_loop_unchanged)
  then show ?thesis
    using lambda_loop_rec[OF assms, of R V C B H l _ rest]
    by (simp add: compute_lambda_values_def)
qed

lemma slice0_butlast_elem: "elem (slice0 None (Some (- 1)) x) (t # rest) = elem x (t # rest)"
  by (simp add: slice0_def Let_def)

lemma bootstrap_at_last:
  assumes "shape x = Suc H # s" "length rest = length s" "\<forall>k<length s. rest ! k < s ! k"
  shows "bootstrap_at (slice0 (Some (- 1)) None x) rest = elem x (H # rest)"
proof -
  have sh: "shape (slice0 (Some (- 1)) None x) = 1 # s" 
    using assms(1) by (simp add: slice0_def Let_def slice_index_simps)
  have "bidx (1 # s) (0 # rest) = 0 # rest"
    using assms(2,3) by (intro bidx_same) (auto simp: nth_Cons split: nat.splits)
  then show ?thesis using assms(1) by (simp add: bootstrap_at_def sh) (simp add: slice0_def Let_def slice_index_simps)
qed

lemma lambda_values_dv2_rec:
  assumes "shape V = Suc H # s" "length rest = length s" "\<forall>k<length s. rest ! k < s ! k" "t < H"
  shows "elem (lambda_values_dv2 R V C H l) (t # rest) =
     elem R (t # rest) + elem C (t # rest) *
       ((1 - l) * elem V (Suc t # rest) +
        l * (if Suc t = H then elem V (H # rest) else elem (lambda_values_dv2 R V C H l) (Suc t # rest)))"
proof -
  have nv: "next_value (slice0 None (Some (- 1)) V) (slice0 (Some (- 1)) None V) H t rest = elem V (Suc t # rest)"
  proof (cases "Suc t < H")
    case True
    then show ?thesis by (simp add: next_value_def slice0_butlast_elem)
  next
    case False
    with assms(4) have "Suc t = H" by arith
    then show ?thesis using bootstrap_at_last[OF assms(1,2,3)] by (simp add: next_value_def)
  qed
  show ?thesis
    unfolding lambda_values_dv2_def
    using compute_lambda_values_rec[OF assms(4), of "slice0 None (Some (- 1)) R" "slice0 None (Some (- 1)) V"
                "slice0 None (Some (- 1)) C" "slice0 (Some (- 1)) None V" l rest]
    by (simp add: nv slice0_butlast_elem bootstrap_at_last[OF assms(1,2,3)])
qed

lemma lambda_values_dv2_shape:
  "shape (lambda_values_dv2 R V C H l) = H # tl (shape R)"
  by (simp add: lambda_values_dv2_def compute_lambda_values_def slice0_def Let_def)

lemma lambda_example_1:
  "map (\<lambda>t. elem (lambda_values_dv2 (series [1, 1, 1, 0]) (series [0, 0, 0, 5]) (series [1, 1, 1, 1]) 3 1) [t, 0, 0])
     [0, 1, 2] = [8, 7, 6]"
  by (simp add: lambda_values_dv2_def compute_lambda_values_def next_value_def bootstrap_at_def bidx_def
      slice0_def Let_def slice_index_def series_def eval_nat_numeral)

lemma lambda_example_0:
  "map (\<lambda>t. elem (lambda_values_dv2 (series [1, 1, 1, 0]) (series [0, 0, 0, 5]) (series [1, 1, 1, 1]) 3 0) [t, 0, 0])
     [0, 1, 2] = [1, 1, 6]"
  by (simp add: lambda_values_dv2_def compute_lambda_values_def next_value_def bootstrap_at_def bidx_def
      slice0_def Let_def slice_index_def series_def eval_nat_numeral)

lemma lambda_values_p2e_rec:
  assumes "shape V = Suc h # s" "length rest = length s" "\<forall>k<length s. rest ! k < s ! k" "t < horizon - 1"
  shows "\<exists>lv. lambda_values_p2e R V C horizon l = Inr lv \<and>
           elem lv (t # rest) =
             elem R (t # rest) + elem C (t # rest) *
               ((1 - l) * (if Suc t < horizon - 1 then elem V (Suc t # rest) else elem V (h # rest)) +
                l * (if Suc t = horizon - 1 then elem V (h # rest) else elem lv (Suc t # rest)))"
proof -
  let ?last = "\<lparr>shape = s, elem = (\<lambda>idx. elem V (h # idx))\<rparr>"
  have sel: "select0 (- 1) V = Inr ?last"
    using assms(1) by (simp add: select0_def Let_def)
  have "bidx s (0 # rest) = bidx s rest"
    using assms(2) by (simp add: bidx_def)
  also have "\<dots> = rest" using assms(2,3) by (intro bidx_same) auto
  finally have b: "bootstrap_at ?last rest = elem V (h # rest)"
    by (simp add: bootstrap_at_def)
  show ?thesis
    using compute_lambda_values_rec[OF assms(4), of R V C ?last l rest]
    by (simp add: lambda_values_p2e_def sel b next_value_def)
qed

section \<open>Facts about the entropy bonus\<close>

lemma entropy_fallback_shape_error:
  assumes "shape objective = [h, n, 1]" "h \<noteq> n" "h \<noteq> 1" "n \<noteq> 1" "those policies = None"
  shows "entropy_term c policies objective = Inr (zeros_like objective)"
    and "actor_policy_loss c policies discnt objective = Inl RuntimeError"
proof -
  show e: "entropy_term c policies objective = Inr (zeros_like objective)"
    using assms(5) by (simp add: entropy_term_def)
  have "broadcast_shapes [h, n, 1] [h, n, 1, 1] = None"
    using assms(2,3,4) by (simp add: broadcast_shapes_def)
  then have "add objective (unsqueeze_last (zeros_like objective)) = Inl RuntimeError"
    using assms(1) by (simp add: add_def broadcast_op_def unsqueeze_last_def zeros_like_def)
  then show "actor_policy_loss c policies discnt objective = Inl RuntimeError"
    by (simp add: actor_policy_loss_def e policy_loss_def)
qed

lemma entropy_term_implemented:
  assumes "those policies = Some (e # es)" "list_all (\<lambda>u. shape u = shape e) es"
  shows "\<exists>b. entropy_term c policies objective = Inr b \<and> shape b = shape e \<and>
           (\<forall>idx. elem b idx = c * (\<Sum>u\<leftarrow>e # es. elem u idx))"
  using assms by (simp add: entropy_term_def stack_sum_last_def scale_def)

lemma implemented_example:
  "actor_policy_loss (1 / 1000) [Some (full [2, 3] 5)] (discount (full [4, 3, 1] 1)) (full [2, 3, 1] 1) = Inr (- (201 / 200))"
proof -
  have e: "entropy_term (1 / 1000) [Some (full [2, 3] 5)] (full [2, 3, 1] 1) = Inr (full [2, 3] (5 / 1000))"
    by (simp add: entropy_term_def stack_sum_last_def scale_def full_def)
  have "policy_loss (discount (full [4, 3, 1] 1)) (full [2, 3, 1] 1) (full [2, 3] (5 / 1000)) 
     = Inr (- ((\<Sum>idx\<leftarrow>indices [2, 3, 1].
                    (\<Prod>k<hd idx. elem (full [4, 3, 1] 1) (k # tl idx)) * (elem (full [2, 3, 1] 1) idx + elem (full [2, 3] (5 / 1000)) (butlast idx)))
                 / real (2 * 3)))"
    by (rule policy_loss_weighted) (simp_all add: full_def)
  then have p: "policy_loss (discount (full [4, 3, 1] 1)) (full [2, 3, 1] 1) (full [2, 3] (5 / 1000)) = Inr (- (201 / 200))"
    by (simp add: full_def eval_nat_numeral)
  show ?thesis unfolding actor_policy_loss_def e using p by simp
qed

section \<open>Facts about the player\<close>

lemma dim1_indices_valid:
  assumes "\<forall>i\<in>set envs. 0 \<le> i \<and> i < int n"
  shows "dim1_indices n envs = Inr (map nat envs)"
  using assms by (induction envs) (auto simp: dim1_index_def)

lemma zero_dim1_valid:
  assumes "shape t = [m, n, d]" "\<forall>i\<in>set envs. 0 \<le> i \<and> i < int n"
  shows "\<exists>t'. zero_dim1 t envs = Inr t' \<and> shape t' = shape t \<and>
           (\<forall>k e j. elem t' [k, e, j] = (if int e \<in> set envs then 0 else elem t [k, e, j]))"
proof -
  have "e \<in> nat ` set envs \<longleftrightarrow> int e \<in> set envs" for e
  proof
    assume "e \<in> nat ` set envs"
    then obtain i where "i \<in> set envs" "e = nat i" by blast
    with assms(2) show "int e \<in> set envs" by auto
  next
    assume "int e \<in> set envs"
    then have "nat (int e) \<in> nat ` set envs" by (rule imageI)
    then show "e \<in> nat ` set envs" by simp
  qed
  then show ?thesis
    using assms(1) dim1_indices_valid[OF assms(2)] by (simp add: zero_dim1_def)
qed

lemma init_states_subset:
  assumes "shape (actions self) = [1, num_envs self, a]"
      and "shape (recurrent_state self) = [1, num_envs self, r]"
      and "shape (stochastic_state self) = [1, num_envs self, s]"
      and "envs \<noteq> []" and "\<forall>i\<in>set envs. 0 \<le> i \<and> i < int (num_envs self)"
  shows "\<exists>p. init_states self (Some envs) = Inr p
           \<and> shape (actions p) = shape (actions self)
           \<and> shape (recurrent_state p) = shape (recurrent_state self)
           \<and> shape (stochastic_state p) = shape (stochastic_state self)
           \<and> (\<forall>e j. elem (actions p) [0, e, j] = (if int e \<in> set envs then 0 else elem (actions self) [0, e, j]))
           \<and> (\<forall>e j. elem (recurrent_state p) [0, e, j] =
                      (if int e \<in> set envs then 0 else elem (recurrent_state self) [0, e, j]))
           \<and> (\<forall>e j. elem (stochastic_state p) [0, e, j] =
                      (if int e \<in> set envs then 0 else elem (stochastic_state self) [0, e, j]))"
proof -
  obtain ta where ta: "zero_dim1 (actions self) envs = Inr ta" "shape ta = shape (actions self)"
    "\<forall>k e j. elem ta [k, e, j] = (if int e \<in> set envs then 0 else elem (actions self) [k, e, j])"
    using zero_dim1_valid[OF assms(1,5)] by blast
  obtain tr where tr: "zero_dim1 (recurrent_state self) envs = Inr tr" "shape tr = shape (recurrent_state self)"
    "\<forall>k e j. elem tr [k, e, j] = (if int e \<in> set envs then 0 else elem (recurrent_state self) [k, e, j])"
    using zero_dim1_valid[OF assms(2,5)] by blast
  obtain ts where ts: "zero_dim1 (stochastic_state self) envs = Inr ts" "shape ts = shape (stochastic_state self)"
    "\<forall>k e j. elem ts [k, e, j] = (if int e \<in> set envs then 0 else elem (stochastic_state self) [k, e, j])"
    using zero_dim1_valid[OF assms(3,5)] by blast
  have "init_states self (Some envs) = Inr (self\<lparr>actions := ta, recurrent_state := tr, stochastic_state := ts\<rparr>)"
    using assms(4) ta(1) tr(1) ts(1) by (simp add: init_states_def)
  then show ?thesis using ta(2,3) tr(2,3) ts(2,3) by simp
qed

lemma init_states_all:
  "reset_envs = None \<or> reset_envs = Some [] \<Longrightarrow>
   \<exists>p. init_states self reset_envs = Inr p
      \<and> shape (actions p) = [1, num_envs self, sum_list (actions_dim self)]
      \<and> shape (recurrent_state p) = [1, num_envs self, recurrent_state_size self]
      \<and> shape (stochastic_state p) = [1, num_envs self, stochastic_size self]
      \<and> (\<forall>idx. elem (actions p) idx = 0) \<and> (\<forall>idx. elem (recurrent_state p) idx = 0)
      \<and> (\<forall>idx. elem (stochastic_state p) idx = 0)"
  by (auto simp: init_states_def zeros_def)

lemma init_states_out_of_range:
  "init_states example_player (Some [2]) = Inl IndexError"
  by (simp add: init_states_def zero_dim1_def full_def dim1_index_def example_player_def)

section \<open>Facts about the dynamic learning loop\<close>

lemma broadcast_shapes_one: "s \<noteq> [] \<Longrightarrow> broadcast_shapes [1] s = Some s"
proof -
  assume "s \<noteq> []"
  then obtain y ys where r: "rev s = y # ys" by (cases "rev s") auto
  have "broadcast_rev [1] (y # ys) = Some (y # ys)" by (cases ys) auto
  then show ?thesis using r by (simp add: broadcast_shapes_def)
qed

lemma override_first_ok:
  assumes "shape is_first = Suc n # b # rest"
  shows "\<exists>d. override_first is_first = Inr d \<and> shape d = shape is_first
           \<and> (\<forall>idx. elem d (0 # idx) = 1)
           \<and> (\<forall>t idx. elem d (Suc t # idx) = elem is_first (Suc t # idx))"
proof -
  let ?row = "\<lparr>shape = b # rest, elem = (\<lambda>idx. elem is_first (0 # idx))\<rparr>"
  have sel: "select0 0 is_first = Inr ?row"
    using assms by (simp add: select0_def Let_def)
  have ex: "expand_as (tensor1 1) ?row = Inr \<lparr>shape = b # rest, elem = (\<lambda>idx. 1)\<rparr>"
    using broadcast_shapes_one[of "b # rest"] by (simp add: expand_as_def tensor1_def)
  show ?thesis
    using assms by (simp add: override_first_def sel ex setitem0_def set_row_def)
qed

lemma dyn_body_calls:
  "\<exists>r. calls (dyn_sim (dyn_body R A E F st i)) =
        calls (dyn_sim st) @
          [Recurrent (reset_where (slice0 (Some (int i)) (Some (int i + 1)) F) (cur_posterior st))
                     (slice0 (Some (int i)) (Some (int i + 1)) A)
                     (reset_where (slice0 (Some (int i)) (Some (int i + 1)) F) (cur_recurrent_state st)),
           Prior r, Posterior r (slice0 (Some (int i)) (Some (int i + 1)) E)]"
  by (simp add: dyn_body_def dynamic_dv2_def Let_def log_call_def draw_def split_def)

lemma dyn_loop_upto_Suc:
  "dyn_loop_upto R args A E F s (Suc n) = dyn_body R A E F (dyn_loop_upto R args A E F s n) n"
  by (simp add: dyn_loop_upto_def)

lemma dyn_loop_calls_length:
  "length (calls (dyn_sim (dyn_loop_upto R args A E F s n))) = length (calls s) + 3 * n"
proof (induction n)
  case 0
  show ?case by (simp add: dyn_loop_upto_def dyn_init_def Let_def)
next
  case (Suc n)
  from dyn_body_calls[of R A E F "dyn_loop_upto R args A E F s n" n] Suc show ?case
    by (auto simp: dyn_loop_upto_Suc)
qed

lemma dyn_loop_calls_prefix:
  "n \<le> m \<Longrightarrow> \<exists>rest. calls (dyn_sim (dyn_loop_upto R args A E F s m)) =
                      calls (dyn_sim (dyn_loop_upto R args A E F s n)) @ rest"
proof (induction m)
  case 0 then show ?case by simp
next
  case (Suc m)
  show ?case
  proof (cases "n = Suc m")
    case True then show ?thesis by simp
  next
    case False
    with Suc.prems have "n \<le> m" by simp
    from Suc.IH[OF this] obtain rest where
      r: "calls (dyn_sim (dyn_loop_upto R args A E F s m)) = calls (dyn_sim (dyn_loop_upto R args A E F s n)) @ rest"
      by blast
    from dyn_body_calls[of R A E F "dyn_loop_upto R args A E F s m" m] r show ?thesis
      by (auto simp: dyn_loop_upto_Suc)
  qed
qed

lemma dyn_loop_call_at:
  assumes "t < n"
  shows "calls (dyn_sim (dyn_loop_upto R args A E F s n)) ! (length (calls s) + 3 * t) =
         Recurrent (reset_where (slice0 (Some (int t)) (Some (int t + 1)) F)
                      (cur_posterior (dyn_loop_upto R args A E F s t)))
                   (slice0 (Some (int t)) (Some (int t + 1)) A)
                   (reset_where (slice0 (Some (int t)) (Some (int t + 1)) F)
                      (cur_recurrent_state (dyn_loop_upto R args A E F s t)))"
proof -
  let ?L = "\<lambda>k. dyn_loop_upto R args A E F s k"
  from assms have "Suc t \<le> n" by simp
  from dyn_loop_calls_prefix[OF this] obtain rest where
    r: "calls (dyn_sim (?L n)) = calls (dyn_sim (?L (Suc t))) @ rest" by blast
  from dyn_body_calls[of R A E F "?L t" t] obtain x where
    b: "calls (dyn_sim (?L (Suc t))) = calls (dyn_sim (?L t)) @
          [Recurrent (reset_where (slice0 (Some (int t)) (Some (int t + 1)) F) (cur_posterior (?L t)))
                     (slice0 (Some (int t)) (Some (int t + 1)) A)
                     (reset_where (slice0 (Some (int t)) (Some (int t + 1)) F) (cur_recurrent_state (?L t))),
           Prior x, Posterior x (slice0 (Some (int t)) (Some (int t + 1)) E)]"
    by (auto simp: dyn_loop_upto_Suc)
  have l: "length (calls (dyn_sim (?L t))) = length (calls s) + 3 * t"
    by (rule dyn_loop_calls_length)
  show ?thesis unfolding r b using l by (simp add: nth_append)
qed

lemma slice_row_flag:
  assumes "shape F = n # rest" "t < n"
  shows "elem (slice0 (Some (int t)) (Some (int t + 1)) F) [0, b, 0] = elem F [t, b, 0]"
  using assms by (simp add: slice0_def Let_def slice_index_def)

lemma reset_where_elem:
  "elem (reset_where f x) (k # b # rest) = (if elem f [0, b, 0] = 1 then 0 else elem x (k # b # rest))"
  by (simp add: reset_where_def)

lemma reset_where_cong:
  "(\<And>b. elem f [0, b, 0] = elem g [0, b, 0]) \<Longrightarrow> reset_where f x = reset_where g x"
  by (auto simp: reset_where_def fun_eq_iff split: list.splits)


lemma dyn_body_flags_cong:
  assumes "\<And>b. elem F [i, b, 0] = elem G [i, b, 0]" "shape F = n # rest" "shape G = n # rest" "i < n"
  shows "dyn_body R A E F st i = dyn_body R A E G st i"
proof -
  have "reset_where (slice0 (Some (int i)) (Some (int i + 1)) F) x =
        reset_where (slice0 (Some (int i)) (Some (int i + 1)) G) x" for x
    using assms by (intro reset_where_cong) (simp add: slice_row_flag)
  then show ?thesis by (simp add: dyn_body_def dynamic_dv2_def)
qed

lemma dyn_loop_flags_cong:
  assumes "\<And>i b. i < t \<Longrightarrow> elem F [i, b, 0] = elem G [i, b, 0]"
      and "shape F = n # rest" "shape G = n # rest" "t \<le> n"
  shows "dyn_loop_upto R args A E F s t = dyn_loop_upto R args A E G s t"
  using assms(1,4)
proof (induction t)
  case 0 show ?case by (simp add: dyn_loop_upto_def)
next
  case (Suc t)
  then have "dyn_loop_upto R args A E F s t = dyn_loop_upto R args A E G s t" by simp
  moreover have "dyn_body R A E F st t = dyn_body R A E G st t" for st
    using Suc.prems by (intro dyn_body_flags_cong[OF _ assms(2,3)]) auto
  ultimately show ?case by (simp add: dyn_loop_upto_Suc)
qed

text \<open>
  \<open>RSSM.dynamic\<close> of \<open>dreamer_v1/agent.py\<close> takes no flag: the recurrent model receives the
  incoming states as they are.
\<close>

lemma dynamic_calls:
  "\<exists>out h'. calls (snd (dynamic R p h a e s)) = calls s @ [Recurrent p a h, Prior out, Posterior h' e]"
  by (simp add: dynamic_def rssm_transition_def rssm_representation_def compute_stochastic_state_def
      Let_def split_def log_call_def draw_def)

section \<open>Facts about the imagination rollouts\<close>

lemma set_row_elem:
  "elem (set_row i t v) (j # rest) = (if j = i then elem v (bidx (shape v) rest) else elem t (j # rest))"
  by (simp add: set_row_def)

lemma set_row_shape: "shape (set_row i t v) = shape t"
  by (simp add: set_row_def)

lemma roll_upto_0: "roll_upto A I k init 0 = init"
  by (simp add: roll_upto_def)

lemma roll_upto_Suc:
  "roll_upto A I k init (Suc j) = roll_body A I k (roll_upto A I k init j) (Suc j)"
  by (simp add: roll_upto_def)

lemma roll_body_fields:
  "shape (imagined_trajectories (roll_body A I k st i)) = shape (imagined_trajectories st)"
  "shape (imagined_actions (roll_body A I k st i)) = shape (imagined_actions st)"
  "elem (imagined_trajectories (roll_body A I k st i)) (j # rest) =
     (if j = i then elem (cur_latent (roll_body A I k st i)) (bidx (shape (cur_latent (roll_body A I k st i))) rest)
      else elem (imagined_trajectories st) (j # rest))"
  "elem (imagined_actions (roll_body A I k st i)) (j # rest) =
     (if j = i then elem (last_actions (roll_body A I k st i)) (bidx (shape (last_actions (roll_body A I k st i))) rest)
      else elem (imagined_actions st) (j # rest))"
  "last_actions (roll_body A I k st i) = fst (call_actor A (cur_latent st) (roll_sim st))"
  by (simp_all add: roll_body_def Let_def split_def set_row_elem set_row_shape)

lemma roll_upto_shapes:
  "shape (imagined_trajectories (roll_upto A I k init j)) = shape (imagined_trajectories init)"
  "shape (imagined_actions (roll_upto A I k init j)) = shape (imagined_actions init)"
  by (induction j) (simp_all add: roll_upto_0 roll_upto_Suc roll_body_fields)

lemma roll_upto_row_stable:
  assumes "i \<le> j"
  shows "elem (imagined_trajectories (roll_upto A I k init j)) (i # rest) =
         elem (imagined_trajectories (roll_upto A I k init i)) (i # rest)"
    and "elem (imagined_actions (roll_upto A I k init j)) (i # rest) =
         elem (imagined_actions (roll_upto A I k init i)) (i # rest)"
  using assms
proof (induction j)
  case 0
  { case 1 then show ?case by simp }
  { case 2 then show ?case by simp }
next
  case (Suc j)
  { case 1
    then show ?case using Suc.IH(1) by (cases "i = Suc j") (simp_all add: roll_upto_Suc roll_body_fields) }
  { case 2
    then show ?case using Suc.IH(2) by (cases "i = Suc j") (simp_all add: roll_upto_Suc roll_body_fields) }
qed

lemma roll_upto_row:
  assumes "i < j"
  shows "elem (imagined_trajectories (roll_upto A I k init j)) (Suc i # rest) =
           elem (cur_latent (roll_upto A I k init (Suc i)))
                (bidx (shape (cur_latent (roll_upto A I k init (Suc i)))) rest)"
    and "elem (imagined_actions (roll_upto A I k init j)) (Suc i # rest) =
           elem (last_actions (roll_upto A I k init (Suc i)))
                (bidx (shape (last_actions (roll_upto A I k init (Suc i)))) rest)"
    and "last_actions (roll_upto A I k init (Suc i)) =
           fst (call_actor A (cur_latent (roll_upto A I k init i)) (roll_sim (roll_upto A I k init i)))"
proof -
  from assms have le: "Suc i \<le> j" by simp
  show "elem (imagined_trajectories (roll_upto A I k init j)) (Suc i # rest) =
           elem (cur_latent (roll_upto A I k init (Suc i)))
                (bidx (shape (cur_latent (roll_upto A I k init (Suc i)))) rest)"
    unfolding roll_upto_row_stable(1)[OF le] by (simp add: roll_upto_Suc roll_body_fields)
  show "elem (imagined_actions (roll_upto A I k init j)) (Suc i # rest) =
           elem (last_actions (roll_upto A I k init (Suc i)))
                (bidx (shape (last_actions (roll_upto A I k init (Suc i)))) rest)"
    unfolding roll_upto_row_stable(2)[OF le] by (simp add: roll_upto_Suc roll_body_fields)
  show "last_actions (roll_upto A I k init (Suc i)) =
           fst (call_actor A (cur_latent (roll_upto A I k init i)) (roll_sim (roll_upto A I k init i)))"
    by (simp add: roll_upto_Suc roll_body_fields)
qed

lemma roll_upto_row0:
  "elem (imagined_trajectories (roll_upto A I k (roll_init H n l a p r s) j)) (0 # rest) =
     elem (cat_last p r) (bidx (shape (cat_last p r)) rest)"
  "elem (imagined_actions (roll_upto A I k (roll_init H n l a p r s) j)) (0 # rest) = 0"
  using roll_upto_row_stable[of 0 j A I k "roll_init H n l a p r s" rest]
  by (simp_all add: roll_upto_0 roll_init_def Let_def set_row_elem zeros_def)


lemma roll_upto_p2e_0: "roll_upto_p2e A I init 0 = init"
  by (simp add: roll_upto_p2e_def)

lemma roll_upto_p2e_Suc:
  "roll_upto_p2e A I init (Suc j) = roll_body_p2e A I (roll_upto_p2e A I init j) j"
  by (simp add: roll_upto_p2e_def)

lemma roll_body_p2e_fields:
  "shape (imagined_trajectories (roll_body_p2e A I st i)) = shape (imagined_trajectories st)"
  "elem (imagined_trajectories (roll_body_p2e A I st i)) (j # rest) =
     (if j = i then elem (cur_latent (roll_body_p2e A I st i)) (bidx (shape (cur_latent (roll_body_p2e A I st i))) rest)
      else elem (imagined_trajectories st) (j # rest))"
  by (simp_all add: roll_body_p2e_def Let_def split_def set_row_elem set_row_shape)

lemma roll_upto_p2e_shape:
  "shape (imagined_trajectories (roll_upto_p2e A I init j)) = shape (imagined_trajectories init)"
  by (induction j) (simp_all add: roll_upto_p2e_0 roll_upto_p2e_Suc roll_body_p2e_fields)

lemma roll_upto_p2e_row_stable:
  assumes "Suc i \<le> j"
  shows "elem (imagined_trajectories (roll_upto_p2e A I init j)) (i # rest) =
         elem (imagined_trajectories (roll_upto_p2e A I init (Suc i))) (i # rest)"
  using assms
proof (induction j)
  case 0 then show ?case by simp
next
  case (Suc j)
  then show ?case by (cases "i = j") (simp_all add: roll_upto_p2e_Suc[of A I init j] roll_body_p2e_fields)
qed

lemma roll_upto_p2e_row:
  assumes "i < j"
  shows "elem (imagined_trajectories (roll_upto_p2e A I init j)) (i # rest) =
           elem (cur_latent (roll_upto_p2e A I init (Suc i)))
                (bidx (shape (cur_latent (roll_upto_p2e A I init (Suc i)))) rest)"
proof -
  from assms have le: "Suc i \<le> j" by simp
  show ?thesis unfolding roll_upto_p2e_row_stable[OF le]
    by (simp add: roll_upto_p2e_Suc roll_body_p2e_fields)
qed

lemma imagination_calls:
  "\<exists>out. calls (snd (imagination R p h a s)) = calls s @ [Recurrent p a h, Prior out]"
  by (simp add: imagination_def rssm_transition_def compute_stochastic_state_def Let_def split_def
      log_call_def draw_def)

lemma call_actor_calls: "calls (snd (call_actor A l s)) = calls s @ [Actor l]"
  by (simp add: call_actor_def Let_def split_def log_call_def draw_def)

lemma roll_body_calls:
  "map kind_of (calls (roll_sim (roll_body A (imagination R) k st i))) =
     map kind_of (calls (roll_sim st)) @ [ActorCall, RecurrentCall, PriorCall]"
proof -
  let ?a = "call_actor A (cur_latent st) (roll_sim st)"
  from imagination_calls[of R "cur_prior st" "cur_recurrent st" "fst ?a" "snd ?a"] obtain out where
    "calls (snd (imagination R (cur_prior st) (cur_recurrent st) (fst ?a) (snd ?a))) =
       calls (snd ?a) @ [Recurrent (cur_prior st) (fst ?a) (cur_recurrent st), Prior out]" by blast
  then show ?thesis
    by (simp add: roll_body_def Let_def split_def call_actor_calls)
qed

lemma roll_body_p2e_calls:
  "map kind_of (calls (roll_sim (roll_body_p2e A (imagination R) st i))) =
     map kind_of (calls (roll_sim st)) @ [ActorCall, RecurrentCall, PriorCall]"
proof -
  let ?a = "call_actor A (cur_latent st) (roll_sim st)"
  from imagination_calls[of R "cur_prior st" "cur_recurrent st" "fst ?a" "snd ?a"] obtain out where
    "calls (snd (imagination R (cur_prior st) (cur_recurrent st) (fst ?a) (snd ?a))) =
       calls (snd ?a) @ [Recurrent (cur_prior st) (fst ?a) (cur_recurrent st), Prior out]" by blast
  then show ?thesis
    by (simp add: roll_body_p2e_def Let_def split_def call_actor_calls)
qed

lemma concat_replicate_snoc: "concat (replicate j xs) @ xs = concat (replicate (Suc j) xs)"
  by (induction j) simp_all

lemma roll_upto_calls:
  "map kind_of (calls (roll_sim (roll_upto A (imagination R) k init j))) =
     map kind_of (calls (roll_sim init)) @ concat (replicate j [ActorCall, RecurrentCall, PriorCall])"
proof (induction j)
  case 0 show ?case by (simp add: roll_upto_0)
next
  case (Suc j)
  show ?case
    unfolding roll_upto_Suc roll_body_calls Suc
    using concat_replicate_snoc[of j "[ActorCall, RecurrentCall, PriorCall]"] by simp
qed

lemma roll_upto_p2e_calls:
  "map kind_of (calls (roll_sim (roll_upto_p2e A (imagination R) init j))) =
     map kind_of (calls (roll_sim init)) @ concat (replicate j [ActorCall, RecurrentCall, PriorCall])"
proof (induction j)
  case 0 show ?case by (simp add: roll_upto_p2e_0)
next
  case (Suc j)
  show ?case
    unfolding roll_upto_p2e_Suc roll_body_p2e_calls Suc
    using concat_replicate_snoc[of j "[ActorCall, RecurrentCall, PriorCall]"] by simp
qed

lemma new_calls_append:
  "map kind_of (calls s') = map kind_of (calls s) @ ks \<Longrightarrow> new_calls s s' = ks"
proof -
  assume a: "map kind_of (calls s') = map kind_of (calls s) @ ks"
  have "new_calls s s' = drop (length (map kind_of (calls s))) (map kind_of (calls s'))"
    by (simp add: new_calls_def drop_map)
  then show ?thesis unfolding a by simp
qed

lemma count_pattern:
  "count_list (concat (replicate j [ActorCall, RecurrentCall, PriorCall])) RecurrentCall = j"
  "count_list (concat (replicate j [ActorCall, RecurrentCall, PriorCall])) PriorCall = j"
  "count_list (concat (replicate j [ActorCall, RecurrentCall, PriorCall])) ActorCall = j"
  "count_list (concat (replicate j [ActorCall, RecurrentCall, PriorCall])) PosteriorCall = 0"
  by (induction j) simp_all

lemma actions_untouched_p2e:
  "elem (imagined_actions (roll_upto_p2e A I init j)) (Suc i # rest) = elem (imagined_actions init) (Suc i # rest)"
  by (induction j) (simp_all add: roll_upto_p2e_0 roll_upto_p2e_Suc roll_body_p2e_def Let_def split_def set_row_elem)

lemma roll_upto_spec:
  "(cur_prior (roll_upto A I k (roll_init H n l a p r s) i),
    cur_recurrent (roll_upto A I k (roll_init H n l a p r s) i),
    roll_sim (roll_upto A I k (roll_init H n l a p r s) i)) = spec_state A I (\<lambda>x. view_1_n x k) p r s i
   \<and> cur_latent (roll_upto A I k (roll_init H n l a p r s) i) = spec_latent A I (\<lambda>x. view_1_n x k) p r s i"
proof (induction i)
  case 0
  show ?case by (simp add: roll_upto_0 roll_init_def Let_def spec_latent_def)
next
  case (Suc i)
  let ?st = "roll_upto A I k (roll_init H n l a p r s) i"
  have st: "spec_state A I (\<lambda>x. view_1_n x k) p r s i = (cur_prior ?st, cur_recurrent ?st, roll_sim ?st)"
    using Suc[THEN conjunct1, symmetric] .
  have lat: "cur_latent ?st = cat_last (cur_prior ?st) (cur_recurrent ?st)"
    using Suc[THEN conjunct2] unfolding spec_latent_def st by simp
  show ?case
    by (simp add: roll_upto_Suc roll_body_def spec_latent_def st lat Let_def split_def)
qed

lemma roll_upto_spec_action:
  "last_actions (roll_upto A I k (roll_init H n l a p r s) (Suc i)) = spec_action A I (\<lambda>x. view_1_n x k) p r s i"
proof -
  let ?st = "roll_upto A I k (roll_init H n l a p r s) i"
  note th = roll_upto_spec[of A I k H n l a p r s i]
  have st: "spec_state A I (\<lambda>x. view_1_n x k) p r s i = (cur_prior ?st, cur_recurrent ?st, roll_sim ?st)"
    using th[THEN conjunct1, symmetric] .
  have lat: "cur_latent ?st = cat_last (cur_prior ?st) (cur_recurrent ?st)"
    using th[THEN conjunct2] unfolding spec_latent_def st by simp
  show ?thesis
    by (simp add: roll_upto_Suc roll_body_fields spec_action_def st lat)
qed

lemma roll_upto_p2e_spec:
  "(cur_prior (roll_upto_p2e A I (roll_init_p2e H n l a p r s) i),
    cur_recurrent (roll_upto_p2e A I (roll_init_p2e H n l a p r s) i),
    roll_sim (roll_upto_p2e A I (roll_init_p2e H n l a p r s) i)) = spec_state A I (\<lambda>x. x) p r s i
   \<and> cur_latent (roll_upto_p2e A I (roll_init_p2e H n l a p r s) i) = spec_latent A I (\<lambda>x. x) p r s i"
proof (induction i)
  case 0
  show ?case by (simp add: roll_upto_p2e_0 roll_init_p2e_def spec_latent_def)
next
  case (Suc i)
  let ?st = "roll_upto_p2e A I (roll_init_p2e H n l a p r s) i"
  have st: "spec_state A I (\<lambda>x. x) p r s i = (cur_prior ?st, cur_recurrent ?st, roll_sim ?st)"
    using Suc[THEN conjunct1, symmetric] .
  have lat: "cur_latent ?st = cat_last (cur_prior ?st) (cur_recurrent ?st)"
    using Suc[THEN conjunct2] unfolding spec_latent_def st by simp
  show ?case
    by (simp add: roll_upto_p2e_Suc roll_body_p2e_def spec_latent_def st lat Let_def split_def)
qed

lemma example_imagination:
  "fst (imagination example_rssm z h a s) =
     (sample_normal (fst (chunk2 example_raw)) (clamp_min (snd (chunk2 example_raw)) (1 / 2)) (randn s (draws s)),
      full [1, 2, 1] 3)"
  "randn (snd (imagination example_rssm z h a s)) = randn s"
  by (simp_all add: imagination_def rssm_transition_def compute_stochastic_state_def example_rssm_def
      Let_def split_def draw_def log_call_def)

lemma call_actor_randn: "randn (snd (call_actor A l s)) = randn s"
  by (simp add: call_actor_def Let_def split_def draw_def log_call_def)

lemma example_spec_randn:
  "randn (snd (snd (spec_state example_actor (imagination example_rssm) post p r example_sim i))) = randn example_sim"
  by (induction i) (simp_all add: Let_def split_def example_imagination call_actor_randn)

lemma example_spec_latent:
  "spec_latent example_actor (imagination example_rssm) post p r example_sim (Suc i) =
     cat_last (post (sample_normal (fst (chunk2 example_raw)) (clamp_min (snd (chunk2 example_raw)) (1 / 2))
                       (zeros [1, 2, 1])))
              (full [1, 2, 1] 3)"
proof -
  let ?st = "spec_state example_actor (imagination example_rssm) post p r example_sim i"
  let ?a = "call_actor example_actor (cat_last (fst ?st) (fst (snd ?st))) (snd (snd ?st))"
  have "randn (snd ?a) = randn example_sim" by (simp add: call_actor_randn example_spec_randn)
  then have "randn (snd ?a) (draws (snd ?a)) = zeros [1, 2, 1]" by (simp add: example_sim_def)
  then show ?thesis
    by (simp add: spec_latent_def Let_def split_def example_imagination)
qed


section \<open>Facts about the construction of the models\<close>

lemma build_models_own_errors:
  "(\<exists>msg. build_models nn adim make_models args = Inl (ValueError msg) \<and> make_models (constructor_inputs adim args) \<noteq> Inl (ValueError msg))
     \<Longrightarrow> cnn_channels_multiplier args \<le> 0 \<or> dense_units args \<le> 0 \<or> cnn_act args \<notin> set nn \<or> dense_act args \<notin> set nn"
  by (auto simp: build_models_def split: if_splits)

lemma build_models_ignores_lmbda:
  "build_models nn adim make_models (args\<lparr>lmbda := x\<rparr>) = build_models nn adim make_models args"
  by (simp add: build_models_def constructor_inputs_def)

lemma negative_layer_count:
  "dense_hidden_sizes (constructor_inputs adim (args\<lparr>mlp_layers := - 3\<rparr>)) = []
   \<and> dense_mlp_layers (constructor_inputs adim (args\<lparr>mlp_layers := - 3\<rparr>)) = - 3"
  by (simp add: constructor_inputs_def)

lemma str_in_examples:
  "str_in ''minedojo'' ''minedojo_open-ended'' \<and> str_in ''minedojo'' ''x_minedojo'' \<and> \<not> str_in ''minedojo'' ''minedoj''
   \<and> str_in '''' '''' \<and> str_in '''' ''a'' \<and> \<not> str_in ''a'' ''''"
  by simp

section \<open>Facts about the floor of the standard deviation\<close>

lemma compute_stochastic_state_std:
  "elem (snd (fst (fst (compute_stochastic_state x e m s)))) idx = max (elem (snd (chunk2 x)) idx) m"
  by (simp add: compute_stochastic_state_def clamp_min_def Let_def split_def)

lemma rssm_floor:
  "m \<le> elem (snd (fst (fst (compute_stochastic_state x e m s)))) idx"
  "elem (snd (chunk2 x)) idx \<le> m \<Longrightarrow> elem (snd (fst (fst (compute_stochastic_state x e m s)))) idx = m"
  by (simp_all add: compute_stochastic_state_std)

lemma rssm_paths_floor:
  "rssm.min_std R \<le> elem (snd (fst (fst (rssm_transition R out s)))) idx"
  "rssm.min_std R \<le> elem (snd (fst (fst (rssm_representation R h e s)))) idx"
  by (simp_all add: rssm_transition_def rssm_representation_def rssm_floor)

lemma greedy_posterior_std:
  "elem (snd (fst (fst (fst (greedy_posterior es d self obs s))))) idx =
     max (elem (snd (chunk2 (representation_model self
            (cat_last (snd (recurrent_model self (cat_last (stochastic_state self) (actions self)) (recurrent_state self)))
                      (encoder self obs))))) idx) d"
  by (simp add: greedy_posterior_def Let_def split_def compute_stochastic_state_std)

lemma dynamic_params_floor:
  assumes "dynamic R p h a e s = ((h', post, prior, post_mean_std, prior_mean_std), s')"
  shows "rssm.min_std R \<le> elem (snd post_mean_std) idx" and "rssm.min_std R \<le> elem (snd prior_mean_std) idx"
proof -
  let ?rec = "rssm.recurrent_model R (cat_last p a) h"
  let ?s1 = "log_call (Recurrent p a h) s"
  let ?t = "rssm_transition R (fst ?rec) ?s1"
  let ?r = "rssm_representation R (snd ?rec) e (snd ?t)"
  from assms have "post_mean_std = fst (fst ?r)" and "prior_mean_std = fst (fst ?t)"
    by (auto simp: dynamic_def Let_def split_def)
  then show "rssm.min_std R \<le> elem (snd post_mean_std) idx" and "rssm.min_std R \<le> elem (snd prior_mean_std) idx"
    by (simp_all add: rssm_paths_floor)
qed

section \<open>Claims\<close>

subsection \<open>C1: the lambda-return recursion\<close>

text \<open>
  Claim C1. The lambda returns are the backward recursion with the bootstrap
  \<open>lambda_value\<^sub>H = value\<^sub>H\<close> and
  \<open>lambda_value\<^sub>t = reward\<^sub>t + continuation\<^sub>t * ((1 - lambda) * value\<^sub>t\<^sub>+\<^sub>1 + lambda * lambda_value\<^sub>t\<^sub>+\<^sub>1)\<close>
  for \<open>t = H - 1\<close> down to 0. This is stated for the call in \<open>dreamer_v2.py\<close>, where the
  tensors of \<open>H + 1\<close> predicted rewards, values and continuations are cut into the first
  \<open>H\<close> rows and the bootstrap row, and for the call in \<open>p2e.py\<close>, where the bootstrap is the
  last predicted value. For the rewards 1, 1, 1, the values 0, 0, 0, the bootstrap
  \<open>value\<^sub>3 = 5\<close> and the continuations 1, 1, 1 the returns are 8, 7, 6 for \<open>lambda = 1\<close> and
  1, 1, 6 for \<open>lambda = 0\<close>.
\<close>

theorem lambda_returns:
  assumes "shape predicted_target_values = Suc H # s"
      and "length rest = length s" and "\<forall>k<length s. rest ! k < s ! k" and "t < H"
      and "shape predicted_values = Suc h # s'"
      and "length rest' = length s'" and "\<forall>k<length s'. rest' ! k < s' ! k" and "t' < horizon - 1"
  shows "shape (lambda_values_dv2 predicted_rewards predicted_target_values continues H lam)
           = H # tl (shape predicted_rewards)
       \<and> elem (lambda_values_dv2 predicted_rewards predicted_target_values continues H lam) (t # rest) =
           elem predicted_rewards (t # rest) + elem continues (t # rest) *
             ((1 - lam) * elem predicted_target_values (Suc t # rest) +
              lam * (if Suc t = H then elem predicted_target_values (H # rest)
                       else elem (lambda_values_dv2 predicted_rewards predicted_target_values continues H lam)
                              (Suc t # rest)))
       \<and> (\<exists>lv. lambda_values_p2e intrinsic_reward predicted_values done_mask horizon lam = Inr lv \<and>
             elem lv (t' # rest') =
               elem intrinsic_reward (t' # rest') + elem done_mask (t' # rest') *
                 ((1 - lam) * (if Suc t' < horizon - 1 then elem predicted_values (Suc t' # rest')
                                 else elem predicted_values (h # rest')) +
                  lam * (if Suc t' = horizon - 1 then elem predicted_values (h # rest')
                           else elem lv (Suc t' # rest'))))
       \<and> map (\<lambda>t. elem (lambda_values_dv2 (series [1, 1, 1, 0]) (series [0, 0, 0, 5]) (series [1, 1, 1, 1]) 3 1)
                     [t, 0, 0]) [0, 1, 2] = [8, 7, 6]
       \<and> map (\<lambda>t. elem (lambda_values_dv2 (series [1, 1, 1, 0]) (series [0, 0, 0, 5]) (series [1, 1, 1, 1]) 3 0)
                     [t, 0, 0]) [0, 1, 2] = [1, 1, 6]"
  using lambda_values_dv2_shape lambda_values_dv2_rec[OF assms(1-4)] lambda_values_p2e_rec[OF assms(5-8)]
    lambda_example_1 lambda_example_0
  by (intro conjI)

theorem lambda_returns_witness:
  "shape (series [0, 0, 0, 5]) = Suc 3 # [1, 1] \<and> length [0, 0 :: nat] = length [1, 1 :: nat]
   \<and> [0, 0] ! 0 < [1, 1 :: nat] ! 0 \<and> [0, 0] ! 1 < [1, 1 :: nat] ! 1 \<and> (2 :: nat) < 3
   \<and> shape (series [0, 5]) = Suc 1 # [1, 1] \<and> (1 :: nat) < 3 - 1
   \<and> elem (lambda_values_dv2 (series [1, 1, 1, 0]) (series [0, 0, 0, 5]) (series [1, 1, 1, 1]) 3 (1 / 2)) [2, 0, 0] = 6
   \<and> (\<exists>lv. lambda_values_p2e (series [1, 1]) (series [0, 5]) (series [1, 1, 1]) 3 (1 / 2) = Inr lv
          \<and> elem lv [1, 0, 0] = 6)"
proof -
  have h: "shape (series [0, 0, 0, 5]) = Suc 3 # [1, 1]" "length [0, 0 :: nat] = length [1, 1 :: nat]"
    "\<forall>k<length [1, 1 :: nat]. [0, 0] ! k < [1, 1 :: nat] ! k" "(2 :: nat) < 3"
    "shape (series [0, 5]) = Suc 1 # [1, 1]" "(1 :: nat) < 3 - 1"
    by (simp_all add: series_def nth_Cons split: nat.splits)
  note th = lambda_returns[OF h(1,2,3,4,5,2,3,6), of "series [1, 1, 1, 0]" "series [1, 1, 1, 1]" "1 / 2"
      "series [1, 1]" "series [1, 1, 1]"]
  from th have a: "elem (lambda_values_dv2 (series [1, 1, 1, 0]) (series [0, 0, 0, 5]) (series [1, 1, 1, 1]) 3 (1 / 2)) [2, 0, 0] = 6"
    by (simp add: series_def)
  from th have b: "\<exists>lv. lambda_values_p2e (series [1, 1]) (series [0, 5]) (series [1, 1, 1]) 3 (1 / 2) = Inr lv
          \<and> elem lv [1, 0, 0] = 6"
    by (simp add: series_def)
  show ?thesis using h(1,2,4,5,6) a b by simp
qed

subsection \<open>C2: cumulative discount weights\<close>

text \<open>
  Claim C2. Next to the lambda returns the training step computes the weight
  \<open>discount\<^sub>t\<close>, the product of \<open>continuation\<^sub>k\<close> over \<open>k < t\<close>, with \<open>discount\<^sub>0 = 1\<close>, and
  multiplies it into the actor objective and into the critic's regression loss: in
  \<open>dreamer_v2.py\<close> the policy loss is minus the mean of \<open>discount\<^sub>t * (objective\<^sub>t + entropy\<^sub>t)\<close>
  and the value loss is minus the mean of \<open>discount\<^sub>t * log_prob\<^sub>t\<close>; in \<open>p2e.py\<close> the weights
  multiply the lambda values handed to the actor loss. For the constant continuation
  0.99 over four steps the weights are 1, 0.99, 0.9801 and 0.970299.
\<close>

theorem discount_weights:
  assumes "shape continues = [h + 2, n, 1]"
      and "shape objective = [h, n, 1]" and "shape entropy = [h, n]" and "shape log_prob = [h + 1, n]"
      and "shape done_mask = Suc (Suc m) # rest" and "shape lambda_values = Suc m # rest"
  shows "shape (discount continues) = [h + 2, n, 1]
       \<and> (\<forall>idx. elem (discount continues) (0 # idx) = 1)
       \<and> (\<forall>t idx. elem (discount continues) (t # idx) = (\<Prod>k<t. elem continues (k # idx)))
       \<and> policy_loss (discount continues) objective entropy =
           Inr (- ((\<Sum>idx\<leftarrow>indices [h, n, 1].
                      (\<Prod>k<hd idx. elem continues (k # tl idx)) * (elem objective idx + elem entropy (butlast idx)))
                   / real (h * n)))
       \<and> value_loss (discount continues) log_prob =
           Inr (- ((\<Sum>idx\<leftarrow>indices [h + 1, n].
                      (\<Prod>k<hd idx. elem continues (k # tl idx @ [0])) * elem log_prob idx)
                   / real ((h + 1) * n)))
       \<and> (\<forall>t idx. elem (discount_p2e done_mask) (t # idx) = (\<Prod>k<t. elem done_mask (k # idx)))
       \<and> (\<exists>w. actor_loss_input_p2e done_mask lambda_values = Inr w \<and> shape w = Suc m # rest \<and>
             (\<forall>idx\<in>set (indices (Suc m # rest)).
                elem w idx = (\<Prod>k<hd idx. elem done_mask (k # tl idx)) * elem lambda_values idx))
       \<and> map (\<lambda>t. elem (discount (series [0.99, 0.99, 0.99, 0.99])) [t, 0, 0]) [0, 1, 2, 3]
           = [1, 0.99, 0.9801, 0.970299]"
proof -
  have c: "shape continues = (h + 2) # [n, 1]" "0 < h + 2" using assms(1) by simp_all
  have c': "shape continues = [(h + 1) + 1, n, 1]" using assms(1) by simp
  have d: "shape done_mask = Suc (Suc m) # rest" "0 < Suc (Suc m)" using assms(5) by simp_all
  have 1: "shape (discount continues) = [h + 2, n, 1]" using discount_shape[OF c] .
  have 2: "\<forall>t idx. elem (discount continues) (t # idx) = (\<Prod>k<t. elem continues (k # idx))"
    using discount_elem[OF c] by blast
  have 3: "\<forall>idx. elem (discount continues) (0 # idx) = 1" using discount_elem[OF c, of 0] by simp
  have 4: "\<forall>t idx. elem (discount_p2e done_mask) (t # idx) = (\<Prod>k<t. elem done_mask (k # idx))"
    using discount_p2e_elem[OF d] by blast
  show ?thesis
    using 1 2 3 4 policy_loss_weighted[OF assms(2,3,1)] value_loss_weighted[OF assms(4) c']
      actor_loss_input_p2e_weighted[OF assms(5,6)] discount_example
    by (intro conjI)
qed

theorem discount_weights_witness:
  "shape (series [0.99, 0.99, 0.99, 0.99]) = [2 + 2, 1, 1]
   \<and> shape (series [1, 2]) = [2, 1, 1] \<and> shape (zeros [2, 1]) = [2, 1] \<and> shape (zeros [3, 1]) = [2 + 1, 1]
   \<and> shape (series [0.5, 0.5, 0.5, 0.5]) = Suc (Suc 2) # [1, 1] \<and> shape (series [1, 1, 1]) = Suc 2 # [1, 1]
   \<and> policy_loss (discount (series [0.99, 0.99, 0.99, 0.99])) (series [1, 2]) (zeros [2, 1]) = Inr (- 1.49)
   \<and> elem (discount_p2e (series [0.5, 0.5, 0.5, 0.5])) [2, 0, 0] = 0.25"
proof -
  have h: "shape (series [0.99, 0.99, 0.99, 0.99]) = [2 + 2, 1, 1]"
    "shape (series [1, 2]) = [2, 1, 1]" "shape (zeros [2, 1]) = [2, 1]" "shape (zeros [3, 1]) = [2 + 1, 1]"
    "shape (series [0.5, 0.5, 0.5, 0.5]) = Suc (Suc 2) # [1, 1]" "shape (series [1, 1, 1]) = Suc 2 # [1, 1]"
    by (simp_all add: series_def zeros_def)
  note th = discount_weights[OF h]
  from th have "policy_loss (discount (series [0.99, 0.99, 0.99, 0.99])) (series [1, 2]) (zeros [2, 1]) =
      Inr (- ((\<Sum>idx\<leftarrow>indices [2, 1, 1].
                      (\<Prod>k<hd idx. elem (series [0.99, 0.99, 0.99, 0.99]) (k # tl idx)) *
                      (elem (series [1, 2]) idx + elem (zeros [2, 1]) (butlast idx)))
                   / real (2 * 1)))"
    by blast
  then have a: "policy_loss (discount (series [0.99, 0.99, 0.99, 0.99])) (series [1, 2]) (zeros [2, 1]) = Inr (- 1.49)"
    by (simp add: series_def zeros_def eval_nat_numeral lessThan_Suc)
  from th have "\<forall>t idx. elem (discount_p2e (series [0.5, 0.5, 0.5, 0.5])) (t # idx) =
      (\<Prod>k<t. elem (series [0.5, 0.5, 0.5, 0.5]) (k # idx))"
    by blast
  then have "elem (discount_p2e (series [0.5, 0.5, 0.5, 0.5])) (2 # [0, 0]) =
      (\<Prod>k<2. elem (series [0.5, 0.5, 0.5, 0.5]) (k # [0, 0]))"
    by blast
  then have b: "elem (discount_p2e (series [0.5, 0.5, 0.5, 0.5])) [2, 0, 0] = 0.25"
    by (simp add: series_def eval_nat_numeral lessThan_Suc)
  show ?thesis using h a b by (intro conjI)
qed

subsection \<open>C3: the reset at an episode boundary\<close>

text \<open>
  Claim C3. For every example of the batch and every timestep \<open>t\<close> of the training
  window: the stochastic state \<open>p\<close> and the recurrent state \<open>r\<close> that the transition
  receives at \<open>t\<close> are zero for an example whose \<open>is_first\<close> flag is 1 at \<open>t\<close>, whatever the
  other examples' flags are. The reset belongs to that timestep alone: an example whose
  flag is not 1 at a timestep receives the state that the previous step returned, also
  right after a reset; and the steps before \<open>t\<close> run the same with any other flags from
  \<open>t\<close> on.
\<close>

theorem is_first_reset:
  assumes "shape is_first = Suc n # bs # rest" and "t < sequence_length args" and "t \<le> n"
  shows "\<exists>flags st p a r.
           override_first is_first = Inr flags
         \<and> dynamic_learning rssm args acts embedded_obs is_first s = Inr st
         \<and> calls (dyn_sim st) ! (length (calls s) + 3 * t) = Recurrent p a r
         \<and> (\<forall>b idx. elem flags [t, b, 0] = 1 \<longrightarrow> elem p (0 # b # idx) = 0 \<and> elem r (0 # b # idx) = 0)
         \<and> (\<forall>b idx. elem flags [t, b, 0] \<noteq> 1 \<longrightarrow>
               elem p (0 # b # idx) =
                 elem (cur_posterior (dyn_loop_upto rssm args acts embedded_obs flags s t)) (0 # b # idx)
             \<and> elem r (0 # b # idx) =
                 elem (cur_recurrent_state (dyn_loop_upto rssm args acts embedded_obs flags s t)) (0 # b # idx))
         \<and> (\<forall>other. shape other = shape flags \<and> (\<forall>i b. i < t \<longrightarrow> elem other [i, b, 0] = elem flags [i, b, 0]) \<longrightarrow>
               dyn_loop_upto rssm args acts embedded_obs other s t =
               dyn_loop_upto rssm args acts embedded_obs flags s t)"
proof -
  from override_first_ok[OF assms(1)] obtain flags where
    f: "override_first is_first = Inr flags" "shape flags = shape is_first" by blast
  let ?st = "dyn_loop_upto rssm args acts embedded_obs flags s (sequence_length args)"
  let ?f = "slice0 (Some (int t)) (Some (int t + 1)) flags"
  let ?before = "dyn_loop_upto rssm args acts embedded_obs flags s t"
  let ?p = "reset_where ?f (cur_posterior ?before)"
  let ?a = "slice0 (Some (int t)) (Some (int t + 1)) acts"
  let ?r = "reset_where ?f (cur_recurrent_state ?before)"
  have st: "dynamic_learning rssm args acts embedded_obs is_first s = Inr ?st"
    by (simp add: dynamic_learning_def f(1))
  have c: "calls (dyn_sim ?st) ! (length (calls s) + 3 * t) = Recurrent ?p ?a ?r"
    by (rule dyn_loop_call_at[OF assms(2)])
  have sh: "shape flags = Suc n # bs # rest" using f(2) assms(1) by simp
  have fl: "elem ?f [0, b, 0] = elem flags [t, b, 0]" for b
    using slice_row_flag[OF sh, of t b] assms(3) by simp
  have 1: "\<forall>b idx. elem flags [t, b, 0] = 1 \<longrightarrow> elem ?p (0 # b # idx) = 0 \<and> elem ?r (0 # b # idx) = 0"
    by (simp add: reset_where_elem fl)
  have 2: "\<forall>b idx. elem flags [t, b, 0] \<noteq> 1 \<longrightarrow>
               elem ?p (0 # b # idx) = elem (cur_posterior ?before) (0 # b # idx)
             \<and> elem ?r (0 # b # idx) = elem (cur_recurrent_state ?before) (0 # b # idx)"
    by (simp add: reset_where_elem fl)
  have 3: "\<forall>other. shape other = shape flags \<and> (\<forall>i b. i < t \<longrightarrow> elem other [i, b, 0] = elem flags [i, b, 0]) \<longrightarrow>
               dyn_loop_upto rssm args acts embedded_obs other s t = ?before"
  proof (intro allI impI)
    fix other :: tensor
    assume o: "shape other = shape flags \<and> (\<forall>i b. i < t \<longrightarrow> elem other [i, b, 0] = elem flags [i, b, 0])"
    then have so: "shape other = Suc n # bs # rest" using sh by simp
    have le: "t \<le> Suc n" using assms(3) by simp
    have eq: "\<And>i b. i < t \<Longrightarrow> elem other [i, b, 0] = elem flags [i, b, 0]" using o by blast
    show "dyn_loop_upto rssm args acts embedded_obs other s t = ?before"
      by (rule dyn_loop_flags_cong[OF eq so sh le])
  qed
  show ?thesis using f(1) st c 1 2 3 by blast
qed

theorem is_first_reset_witness:
  "\<exists>flags st p a r.
      override_first example_is_first = Inr flags
    \<and> dynamic_learning example_stepper example_sizes (zeros [2, 2, 1]) (zeros [2, 2, 1]) example_is_first
          example_sim = Inr st
    \<and> calls (dyn_sim st) ! 3 = Recurrent p a r
    \<and> elem p [0, 0, 0, 0] = 0 \<and> elem r [0, 0, 0] = 0
    \<and> elem p [0, 1, 0, 0] = 5 \<and> elem r [0, 1, 0] = 7"
proof -
  have sh: "shape example_is_first = Suc 1 # 2 # [1]" by (simp add: example_is_first_def)
  have t: "(1 :: nat) < sequence_length example_sizes" "(1 :: nat) \<le> 1" by (simp_all add: example_sizes_def)
  from is_first_reset[OF sh t, of example_stepper "zeros [2, 2, 1]" "zeros [2, 2, 1]" example_sim]
  obtain flags st p a r where
    f: "override_first example_is_first = Inr flags"
    and st: "dynamic_learning example_stepper example_sizes (zeros [2, 2, 1]) (zeros [2, 2, 1]) example_is_first
          example_sim = Inr st"
    and c: "calls (dyn_sim st) ! (length (calls example_sim) + 3 * 1) = Recurrent p a r"
    and z: "\<forall>b idx. elem flags [1, b, 0] = 1 \<longrightarrow> elem p (0 # b # idx) = 0 \<and> elem r (0 # b # idx) = 0"
    and k: "\<forall>b idx. elem flags [1, b, 0] \<noteq> 1 \<longrightarrow>
               elem p (0 # b # idx) =
                 elem (cur_posterior (dyn_loop_upto example_stepper example_sizes (zeros [2, 2, 1]) (zeros [2, 2, 1]) flags example_sim 1)) (0 # b # idx)
             \<and> elem r (0 # b # idx) =
                 elem (cur_recurrent_state (dyn_loop_upto example_stepper example_sizes (zeros [2, 2, 1]) (zeros [2, 2, 1]) flags example_sim 1)) (0 # b # idx)"
    by blast
  from override_first_ok[OF sh] f have "\<forall>t idx. elem flags (Suc t # idx) = elem example_is_first (Suc t # idx)"
    by auto
  then have "elem flags (Suc 0 # [0, 0]) = elem example_is_first (Suc 0 # [0, 0])"
    and "elem flags (Suc 0 # [1, 0]) = elem example_is_first (Suc 0 # [1, 0])" by blast+
  then have fl: "elem flags [1, 0, 0] = 1" "elem flags [1, 1, 0] \<noteq> 1"
    by (simp_all add: example_is_first_def)
  have l1: "dyn_loop_upto example_stepper example_sizes (zeros [2, 2, 1]) (zeros [2, 2, 1]) flags example_sim 1 =
        dyn_body example_stepper (zeros [2, 2, 1]) (zeros [2, 2, 1]) flags
          (dyn_init example_sizes example_sim) 0"
    by (simp add: dyn_loop_upto_def)
  have cp: "cur_posterior (dyn_loop_upto example_stepper example_sizes (zeros [2, 2, 1]) (zeros [2, 2, 1]) flags example_sim 1)
           = full [1, 2, 1, 1] 5"
    and cr: "cur_recurrent_state (dyn_loop_upto example_stepper example_sizes (zeros [2, 2, 1]) (zeros [2, 2, 1]) flags example_sim 1)
           = full [1, 2, 1] 7"
    unfolding l1 by (simp_all add: dyn_body_def dynamic_dv2_def example_stepper_def Let_def split_def)
  from z fl(1) have 1: "elem p (0 # 0 # [0, 0]) = 0" "elem r (0 # 0 # [0]) = 0" by blast+
  from k fl(2) have 2: "elem p (0 # 1 # [0, 0]) = 5" "elem r (0 # 1 # [0]) = 7"
    unfolding cp cr by (simp_all add: full_def)
  from c have c': "calls (dyn_sim st) ! 3 = Recurrent p a r" by (simp add: example_sim_def)
  show ?thesis using f st c' 1 2 by blast
qed

subsection \<open>C4: the floor of the standard deviation\<close>

text \<open>
  Claim C4. Every distribution produced by the Prior Predictor or by the Posterior
  Estimator is to have a standard deviation of at least \<open>min_std\<close>, the floor applied in
  the same way, through the shared utility, on every call that produces a stochastic
  state. \<open>RSSM._transition\<close> and \<open>RSSM._representation\<close> pass \<open>min_std=self.min_std\<close> to the
  utility; \<open>PlayerDV1.get_greedy_action\<close> calls the utility on the output of the same
  representation model without \<open>min_std\<close>, so that the floor there is the utility's
  default. The code evaluated for a model built with \<open>min_std = 0.5\<close>, a utility whose
  default is 0.1 and a predictor that emits the raw standard deviation 0: the prior and
  the posterior of the RSSM have the standard deviation 0.5, the posterior of the player
  has 0.1.
\<close>

theorem player_floor_is_default:
  "rssm.min_std example_rssm = 1 / 2
   \<and> representation_model example_player = rssm.representation_model example_rssm
   \<and> elem (snd (fst (fst (rssm_transition example_rssm (full [1, 2, 1] 3) example_sim)))) [0, 0, 0] = 1 / 2
   \<and> elem (snd (fst (fst (rssm_representation example_rssm (full [1, 2, 1] 3) (zeros [1, 2, 1]) example_sim))))
        [0, 0, 0] = 1 / 2
   \<and> elem (snd (fst (fst (fst (greedy_posterior 1 (1 / 10) example_player (zeros [1, 2, 1]) example_sim)))))
        [0, 0, 0] = 1 / 10"
  by (simp add: rssm_transition_def rssm_representation_def greedy_posterior_std compute_stochastic_state_std
      example_rssm_def example_player_def example_raw_def chunk2_def cat_last_def full_def Let_def)

subsection \<open>C5: the shape of an imagined trajectory\<close>

text \<open>
  Claim C5, as amended. The rollout of \<open>dreamer_v2.py\<close> with horizon \<open>H\<close> fills a
  trajectory of exactly \<open>H + 1\<close> latent states: the seed at index 0 and, at every index
  \<open>i\<close> from 1 to \<open>H\<close>, the latent state after \<open>i\<close> imagined steps from the seed, as the
  roller of the specification defines it. It records the \<open>H\<close> sampled actions at the
  indices 1 to \<open>H\<close>, the action at \<open>i\<close> being the one sampled from the latent state after
  \<open>i - 1\<close> steps, with a zero placeholder at index 0. The rollout of \<open>p2e.py\<close> stores the \<open>H\<close>
  imagined latent states only: index \<open>i\<close> holds the state after \<open>i + 1\<close> steps and the seed
  is not stored. Both hold for every actor, every imagination step and every seed.

  The claim as stated, \<open>H + 1\<close> latent states for every rollout, fails for \<open>p2e.py\<close>: with
  \<open>H = 3\<close> its trajectory has 3 rows.
\<close>

theorem imagination_trajectory:
  assumes "i < horizon"
  shows "shape (imagined_trajectories (imagine_dv2 act imagine horizon n k rsz asz p r s)) = [horizon + 1, n, k + rsz]
       \<and> shape (imagined_actions (imagine_dv2 act imagine horizon n k rsz asz p r s)) = [horizon + 1, n, asz]
       \<and> (\<forall>rest. elem (imagined_trajectories (imagine_dv2 act imagine horizon n k rsz asz p r s)) (0 # rest) =
                   elem (cat_last p r) (bidx (shape (cat_last p r)) rest))
       \<and> (\<forall>rest. elem (imagined_actions (imagine_dv2 act imagine horizon n k rsz asz p r s)) (0 # rest) = 0)
       \<and> (\<forall>rest. elem (imagined_trajectories (imagine_dv2 act imagine horizon n k rsz asz p r s)) (Suc i # rest) =
                   elem (spec_latent act imagine (\<lambda>x. view_1_n x k) p r s (Suc i))
                     (bidx (shape (spec_latent act imagine (\<lambda>x. view_1_n x k) p r s (Suc i))) rest))
       \<and> (\<forall>rest. elem (imagined_actions (imagine_dv2 act imagine horizon n k rsz asz p r s)) (Suc i # rest) =
                   elem (spec_action act imagine (\<lambda>x. view_1_n x k) p r s i)
                     (bidx (shape (spec_action act imagine (\<lambda>x. view_1_n x k) p r s i)) rest))
       \<and> shape (imagined_trajectories (imagine_p2e act imagine horizon n l asz p r s)) = [horizon, n, l]
       \<and> (\<forall>rest. elem (imagined_trajectories (imagine_p2e act imagine horizon n l asz p r s)) (i # rest) =
                   elem (spec_latent act imagine (\<lambda>x. x) p r s (Suc i))
                     (bidx (shape (spec_latent act imagine (\<lambda>x. x) p r s (Suc i))) rest))"
proof -
  let ?init = "roll_init horizon n (k + rsz) asz p r s"
  have 1: "shape (imagined_trajectories (imagine_dv2 act imagine horizon n k rsz asz p r s)) = [horizon + 1, n, k + rsz]"
    by (simp add: imagine_dv2_def roll_upto_shapes roll_init_def Let_def set_row_shape empty_tensor_def)
  have 2: "shape (imagined_actions (imagine_dv2 act imagine horizon n k rsz asz p r s)) = [horizon + 1, n, asz]"
    by (simp add: imagine_dv2_def roll_upto_shapes roll_init_def Let_def set_row_shape empty_tensor_def)
  have 3: "\<forall>rest. elem (imagined_trajectories (imagine_dv2 act imagine horizon n k rsz asz p r s)) (0 # rest) =
                   elem (cat_last p r) (bidx (shape (cat_last p r)) rest)"
    by (simp add: imagine_dv2_def roll_upto_row0)
  have 4: "\<forall>rest. elem (imagined_actions (imagine_dv2 act imagine horizon n k rsz asz p r s)) (0 # rest) = 0"
    by (simp add: imagine_dv2_def roll_upto_row0)
  have lat: "cur_latent (roll_upto act imagine k ?init (Suc i)) = spec_latent act imagine (\<lambda>x. view_1_n x k) p r s (Suc i)"
    using roll_upto_spec[of act imagine k horizon n "k + rsz" asz p r s "Suc i"] by blast
  have la: "last_actions (roll_upto act imagine k ?init (Suc i)) = spec_action act imagine (\<lambda>x. view_1_n x k) p r s i"
    by (rule roll_upto_spec_action)
  have 5: "\<forall>rest. elem (imagined_trajectories (imagine_dv2 act imagine horizon n k rsz asz p r s)) (Suc i # rest) =
                   elem (spec_latent act imagine (\<lambda>x. view_1_n x k) p r s (Suc i))
                     (bidx (shape (spec_latent act imagine (\<lambda>x. view_1_n x k) p r s (Suc i))) rest)"
    unfolding imagine_dv2_def using roll_upto_row(1)[OF assms, of act imagine k ?init] unfolding lat by blast
  have 6: "\<forall>rest. elem (imagined_actions (imagine_dv2 act imagine horizon n k rsz asz p r s)) (Suc i # rest) =
                   elem (spec_action act imagine (\<lambda>x. view_1_n x k) p r s i)
                     (bidx (shape (spec_action act imagine (\<lambda>x. view_1_n x k) p r s i)) rest)"
    unfolding imagine_dv2_def using roll_upto_row(2)[OF assms, of act imagine k ?init] unfolding la by blast
  have 8: "shape (imagined_trajectories (imagine_p2e act imagine horizon n l asz p r s)) = [horizon, n, l]"
    by (simp add: imagine_p2e_def roll_upto_p2e_shape roll_init_p2e_def empty_tensor_def)
  have lat': "cur_latent (roll_upto_p2e act imagine (roll_init_p2e horizon n l asz p r s) (Suc i)) =
                spec_latent act imagine (\<lambda>x. x) p r s (Suc i)"
    using roll_upto_p2e_spec[of act imagine horizon n l asz p r s "Suc i"] by blast
  have 9: "\<forall>rest. elem (imagined_trajectories (imagine_p2e act imagine horizon n l asz p r s)) (i # rest) =
                   elem (spec_latent act imagine (\<lambda>x. x) p r s (Suc i))
                     (bidx (shape (spec_latent act imagine (\<lambda>x. x) p r s (Suc i))) rest)"
    unfolding imagine_p2e_def
    using roll_upto_p2e_row[OF assms, of act imagine "roll_init_p2e horizon n l asz p r s"] unfolding lat' by blast
  show ?thesis using 1 2 3 4 5 6 8 9 by (intro conjI)
qed

theorem imagination_trajectory_witness:
  "(2 :: nat) < 3
   \<and> shape (imagined_trajectories
        (imagine_dv2 example_actor (imagination example_rssm) 3 2 1 1 1 (zeros [1, 2, 1]) (zeros [1, 2, 1]) example_sim))
       = [4, 2, 2]
   \<and> elem (imagined_trajectories
        (imagine_dv2 example_actor (imagination example_rssm) 3 2 1 1 1 (zeros [1, 2, 1]) (zeros [1, 2, 1]) example_sim))
        [0, 1, 1] = 0
   \<and> elem (imagined_trajectories
        (imagine_dv2 example_actor (imagination example_rssm) 3 2 1 1 1 (zeros [1, 2, 1]) (zeros [1, 2, 1]) example_sim))
        [3, 1, 0] = 1
   \<and> elem (imagined_trajectories
        (imagine_dv2 example_actor (imagination example_rssm) 3 2 1 1 1 (zeros [1, 2, 1]) (zeros [1, 2, 1]) example_sim))
        [3, 1, 1] = 3
   \<and> elem (imagined_actions
        (imagine_dv2 example_actor (imagination example_rssm) 3 2 1 1 1 (zeros [1, 2, 1]) (zeros [1, 2, 1]) example_sim))
        [0, 1, 0] = 0
   \<and> elem (imagined_actions
        (imagine_dv2 example_actor (imagination example_rssm) 3 2 1 1 1 (zeros [1, 2, 1]) (zeros [1, 2, 1]) example_sim))
        [3, 1, 0] = 1
   \<and> shape (imagined_trajectories
        (imagine_p2e example_actor (imagination example_rssm) 3 2 2 1 (zeros [1, 2, 1]) (zeros [1, 2, 1]) example_sim))
       = [3, 2, 2]
   \<and> elem (imagined_trajectories
        (imagine_p2e example_actor (imagination example_rssm) 3 2 2 1 (zeros [1, 2, 1]) (zeros [1, 2, 1]) example_sim))
        [2, 1, 1] = 3"
proof -
  let ?dv2 = "imagine_dv2 example_actor (imagination example_rssm) 3 2 1 1 1 (zeros [1, 2, 1]) (zeros [1, 2, 1]) example_sim"
  let ?p2e = "imagine_p2e example_actor (imagination example_rssm) 3 2 2 1 (zeros [1, 2, 1]) (zeros [1, 2, 1]) example_sim"
  let ?lat = "cat_last (view_1_n (sample_normal (fst (chunk2 example_raw)) (clamp_min (snd (chunk2 example_raw)) (1 / 2))
                       (zeros [1, 2, 1])) 1) (full [1, 2, 1] 3)"
  let ?lat' = "cat_last (sample_normal (fst (chunk2 example_raw)) (clamp_min (snd (chunk2 example_raw)) (1 / 2))
                       (zeros [1, 2, 1])) (full [1, 2, 1] 3)"
  have h: "(2 :: nat) < 3" by simp
  note th = imagination_trajectory[OF h, of example_actor "imagination example_rssm" 2 1 1 1 "zeros [1, 2, 1]"
      "zeros [1, 2, 1]" example_sim 2]
  from th have a: "shape (imagined_trajectories ?dv2) = [4, 2, 2]" by simp
  from th have "\<forall>rest. elem (imagined_trajectories ?dv2) (0 # rest) =
      elem (cat_last (zeros [1, 2, 1]) (zeros [1, 2, 1])) (bidx (shape (cat_last (zeros [1, 2, 1]) (zeros [1, 2, 1]))) rest)"
    by blast
  then have "elem (imagined_trajectories ?dv2) (0 # [1, 1]) =
      elem (cat_last (zeros [1, 2, 1]) (zeros [1, 2, 1])) (bidx (shape (cat_last (zeros [1, 2, 1]) (zeros [1, 2, 1]))) [1, 1])"
    by blast
  then have b: "elem (imagined_trajectories ?dv2) [0, 1, 1] = 0"
    by (simp add: cat_last_def zeros_def)
  from th have r3: "\<forall>rest. elem (imagined_trajectories ?dv2) (Suc 2 # rest) = elem ?lat (bidx (shape ?lat) rest)"
    unfolding example_spec_latent by blast
  have sl: "shape ?lat = [1, 2, 2]"
    by (simp add: cat_last_def view_1_n_def sample_normal_def chunk2_def example_raw_def full_def Let_def)
  have el: "elem ?lat [0, 1, 0] = 1" "elem ?lat [0, 1, 1] = 3"
    by (simp_all add: cat_last_def view_1_n_def sample_normal_def clamp_min_def chunk2_def example_raw_def
        full_def zeros_def ravel_def Let_def)
  from r3 have "elem (imagined_trajectories ?dv2) (Suc 2 # [1, 0]) = elem ?lat (bidx (shape ?lat) [1, 0])"
    and "elem (imagined_trajectories ?dv2) (Suc 2 # [1, 1]) = elem ?lat (bidx (shape ?lat) [1, 1])" by blast+
  then have c: "elem (imagined_trajectories ?dv2) [3, 1, 0] = 1" "elem (imagined_trajectories ?dv2) [3, 1, 1] = 3"
    unfolding sl using el by (simp_all add: bidx_def eval_nat_numeral)
  from th have "\<forall>rest. elem (imagined_actions ?dv2) (0 # rest) = 0" by blast
  then have d: "elem (imagined_actions ?dv2) [0, 1, 0] = 0" by blast
  have sa: "spec_action example_actor (imagination example_rssm) (\<lambda>x. view_1_n x 1) (zeros [1, 2, 1]) (zeros [1, 2, 1])
              example_sim 2 = full [1, 2, 1] 1"
    by (simp add: spec_action_def split_def call_actor_def example_actor_def)
  from th have "\<forall>rest. elem (imagined_actions ?dv2) (Suc 2 # rest) =
       elem (full [1, 2, 1] 1) (bidx (shape (full [1, 2, 1] 1 :: tensor)) rest)"
    unfolding sa by blast
  then have "elem (imagined_actions ?dv2) (Suc 2 # [1, 0]) =
       elem (full [1, 2, 1] 1) (bidx (shape (full [1, 2, 1] 1 :: tensor)) [1, 0])" by blast
  then have e: "elem (imagined_actions ?dv2) [3, 1, 0] = 1" by (simp add: full_def eval_nat_numeral)
  from th have f: "shape (imagined_trajectories ?p2e) = [3, 2, 2]" by simp
  from th have "\<forall>rest. elem (imagined_trajectories ?p2e) (2 # rest) = elem ?lat' (bidx (shape ?lat') rest)"
    unfolding example_spec_latent by blast
  then have "elem (imagined_trajectories ?p2e) (2 # [1, 1]) = elem ?lat' (bidx (shape ?lat') [1, 1])" by blast
  then have g: "elem (imagined_trajectories ?p2e) [2, 1, 1] = 3"
    by (simp add: cat_last_def sample_normal_def clamp_min_def chunk2_def example_raw_def
        full_def zeros_def bidx_def Let_def)
  show ?thesis using h a b c d e f g by (intro conjI)
qed

theorem imagination_trajectory_counterexample:
  "shape (imagined_trajectories
            (imagine_p2e example_actor (imagination example_rssm) 3 2 2 1 (zeros [1, 2, 1]) (zeros [1, 2, 1])
               example_sim)) = [3, 2, 2]
   \<and> (3 :: nat) \<noteq> 3 + 1"
  by (simp add: imagine_p2e_def roll_upto_p2e_shape roll_init_p2e_def empty_tensor_def)

subsection \<open>C6: the rollout calls no posterior and never stops early\<close>

text \<open>
  Claim C6. During an imagination rollout the Posterior Estimator is never invoked:
  each of the \<open>H\<close> steps samples an action and applies the Recurrent Transition Unit and
  the Prior Predictor, and nothing else. The loop runs exactly \<open>H\<close> iterations for every
  world model, whatever its continuation model predicts. Both rollouts are run with
  the imagination step of the class \<open>RSSM\<close>; the calls they add to the log are \<open>H\<close> times
  the actor, the recurrent model and the transition model, in this order.
\<close>

theorem imagination_never_posterior:
  "new_calls s (roll_sim (imagine_dv2 act (imagination (wm_rssm world_model)) horizon n k rsz asz p r s)) =
     concat (replicate horizon [ActorCall, RecurrentCall, PriorCall])
   \<and> new_calls s (roll_sim (imagine_p2e act (imagination (wm_rssm world_model)) horizon n l asz p r s)) =
     concat (replicate horizon [ActorCall, RecurrentCall, PriorCall])
   \<and> count_list (new_calls s (roll_sim (imagine_dv2 act (imagination (wm_rssm world_model)) horizon n k rsz asz p r s)))
       PosteriorCall = 0
   \<and> count_list (new_calls s (roll_sim (imagine_p2e act (imagination (wm_rssm world_model)) horizon n l asz p r s)))
       PosteriorCall = 0
   \<and> count_list (new_calls s (roll_sim (imagine_dv2 act (imagination (wm_rssm world_model)) horizon n k rsz asz p r s)))
       RecurrentCall = horizon
   \<and> count_list (new_calls s (roll_sim (imagine_p2e act (imagination (wm_rssm world_model)) horizon n l asz p r s)))
       RecurrentCall = horizon
   \<and> count_list (new_calls s (roll_sim (imagine_dv2 act (imagination (wm_rssm world_model)) horizon n k rsz asz p r s)))
       PriorCall = horizon
   \<and> count_list (new_calls s (roll_sim (imagine_p2e act (imagination (wm_rssm world_model)) horizon n l asz p r s)))
       PriorCall = horizon"
proof -
  have a: "new_calls s (roll_sim (imagine_dv2 act (imagination (wm_rssm world_model)) horizon n k rsz asz p r s)) =
     concat (replicate horizon [ActorCall, RecurrentCall, PriorCall])"
    unfolding imagine_dv2_def
    by (rule new_calls_append) (simp add: roll_upto_calls roll_init_def Let_def)
  have b: "new_calls s (roll_sim (imagine_p2e act (imagination (wm_rssm world_model)) horizon n l asz p r s)) =
     concat (replicate horizon [ActorCall, RecurrentCall, PriorCall])"
    unfolding imagine_p2e_def
    by (rule new_calls_append) (simp add: roll_upto_p2e_calls roll_init_p2e_def)
  show ?thesis unfolding a b by (simp add: count_pattern)
qed

subsection \<open>C7: the entropy fallback\<close>

text \<open>
  Claim C7. When a policy's distribution implements no entropy, the training step is to
  substitute a zero entropy bonus rather than fail; when the entropies are implemented,
  the bonus is the coefficient times their sum. The code evaluated at a horizon of 3 and
  3 imagined examples, where the objective has the shape \<open>(2, 3, 1)\<close>: the
  \<open>NotImplementedError\<close> is caught and the bonus is \<open>zeros_like(objective)\<close>, of shape
  \<open>(2, 3, 1)\<close>; the next line unsqueezes it to \<open>(2, 3, 1, 1)\<close>, which does not broadcast
  against the objective, and the step ends in a \<open>RuntimeError\<close>. With an implemented
  entropy of shape \<open>(2, 3)\<close> the same line returns the loss.
\<close>

theorem entropy_fallback_raises:
  "entropy_term (1 / 1000) [None] (full [2, 3, 1] 1) = Inr (zeros_like (full [2, 3, 1] 1))
   \<and> actor_policy_loss (1 / 1000) [None] (discount (full [4, 3, 1] (99 / 100))) (full [2, 3, 1] 1) = Inl RuntimeError
   \<and> actor_policy_loss (1 / 1000) [Some (full [2, 3] 5)] (discount (full [4, 3, 1] 1)) (full [2, 3, 1] 1) =
       Inr (- (201 / 200))"
proof -
  have a: "entropy_term (1 / 1000) [None] (full [2, 3, 1] 1) = Inr (zeros_like (full [2, 3, 1] 1))"
    by (rule entropy_fallback_shape_error(1)[of _ 2 3]) (simp_all add: full_def)
  have b: "actor_policy_loss (1 / 1000) [None] (discount (full [4, 3, 1] (99 / 100))) (full [2, 3, 1] 1) = Inl RuntimeError"
    by (rule entropy_fallback_shape_error(2)[of _ 2 3]) (simp_all add: full_def)
  show ?thesis using a b implemented_example by (intro conjI)
qed

subsection \<open>C8: the checks of \<open>build_models\<close>\<close>




subsection \<open>C9: resetting the player's state\<close>

text \<open>
  Claim C9. \<open>init_states\<close> with a non-empty sequence of environment indices sets the
  stored action, recurrent state and stochastic state to zero at exactly those
  environments and keeps the state of every other environment; with \<open>None\<close> or an empty
  sequence it sets the state of all environments to zero.
\<close>

theorem init_states_frame:
  assumes "shape (actions self) = [1, num_envs self, a]"
      and "shape (recurrent_state self) = [1, num_envs self, r]"
      and "shape (stochastic_state self) = [1, num_envs self, z]"
      and "envs \<noteq> []" and "\<forall>i\<in>set envs. 0 \<le> i \<and> i < int (num_envs self)"
  shows "(\<exists>p. init_states self (Some envs) = Inr p
           \<and> shape (actions p) = shape (actions self)
           \<and> shape (recurrent_state p) = shape (recurrent_state self)
           \<and> shape (stochastic_state p) = shape (stochastic_state self)
           \<and> (\<forall>e j. elem (actions p) [0, e, j] = (if int e \<in> set envs then 0 else elem (actions self) [0, e, j]))
           \<and> (\<forall>e j. elem (recurrent_state p) [0, e, j] =
                      (if int e \<in> set envs then 0 else elem (recurrent_state self) [0, e, j]))
           \<and> (\<forall>e j. elem (stochastic_state p) [0, e, j] =
                      (if int e \<in> set envs then 0 else elem (stochastic_state self) [0, e, j])))
       \<and> (\<exists>p. init_states self None = Inr p
           \<and> init_states self (Some []) = Inr p
           \<and> shape (actions p) = [1, num_envs self, sum_list (actions_dim self)]
           \<and> shape (recurrent_state p) = [1, num_envs self, recurrent_state_size self]
           \<and> shape (stochastic_state p) = [1, num_envs self, stochastic_size self]
           \<and> (\<forall>idx. elem (actions p) idx = 0) \<and> (\<forall>idx. elem (recurrent_state p) idx = 0)
           \<and> (\<forall>idx. elem (stochastic_state p) idx = 0))"
proof -
  have n: "init_states self (Some []) = init_states self None" by (simp add: init_states_def)
  from init_states_all[of None self] n
  have "\<exists>p. init_states self None = Inr p
           \<and> init_states self (Some []) = Inr p
           \<and> shape (actions p) = [1, num_envs self, sum_list (actions_dim self)]
           \<and> shape (recurrent_state p) = [1, num_envs self, recurrent_state_size self]
           \<and> shape (stochastic_state p) = [1, num_envs self, stochastic_size self]
           \<and> (\<forall>idx. elem (actions p) idx = 0) \<and> (\<forall>idx. elem (recurrent_state p) idx = 0)
           \<and> (\<forall>idx. elem (stochastic_state p) idx = 0)" by auto
  then show ?thesis using init_states_subset[OF assms] by blast
qed

theorem init_states_frame_witness:
  "shape (actions example_player) = [1, num_envs example_player, 1] \<and> [1 :: int] \<noteq> []
   \<and> (\<exists>p. init_states example_player (Some [1]) = Inr p
          \<and> elem (actions p) [0, 1, 0] = 0 \<and> elem (recurrent_state p) [0, 1, 0] = 0
          \<and> elem (stochastic_state p) [0, 1, 0] = 0
          \<and> elem (actions p) [0, 0, 0] = 7 \<and> elem (recurrent_state p) [0, 0, 0] = 8
          \<and> elem (stochastic_state p) [0, 0, 0] = 9)
   \<and> (\<exists>p. init_states example_player None = Inr p \<and> elem (actions p) [0, 0, 0] = 0)"
proof -
  have h: "shape (actions example_player) = [1, num_envs example_player, 1]"
    "shape (recurrent_state example_player) = [1, num_envs example_player, 1]"
    "shape (stochastic_state example_player) = [1, num_envs example_player, 1]"
    "[1 :: int] \<noteq> []" "\<forall>i\<in>set [1 :: int]. 0 \<le> i \<and> i < int (num_envs example_player)"
    by (simp_all add: example_player_def full_def)
  note th = init_states_frame[OF h]
  from th obtain p where
    p: "init_states example_player (Some [1]) = Inr p"
       "\<forall>e j. elem (actions p) [0, e, j] = (if int e \<in> set [1] then 0 else elem (actions example_player) [0, e, j])"
       "\<forall>e j. elem (recurrent_state p) [0, e, j] =
                      (if int e \<in> set [1] then 0 else elem (recurrent_state example_player) [0, e, j])"
       "\<forall>e j. elem (stochastic_state p) [0, e, j] =
                      (if int e \<in> set [1] then 0 else elem (stochastic_state example_player) [0, e, j])"
    by blast
  from p(2) have a: "elem (actions p) [0, 1, 0] = 0" "elem (actions p) [0, 0, 0] = 7"
    by (simp_all add: example_player_def full_def)
  from p(3) have b: "elem (recurrent_state p) [0, 1, 0] = 0" "elem (recurrent_state p) [0, 0, 0] = 8"
    by (simp_all add: example_player_def full_def)
  from p(4) have c: "elem (stochastic_state p) [0, 1, 0] = 0" "elem (stochastic_state p) [0, 0, 0] = 9"
    by (simp_all add: example_player_def full_def)
  from th obtain q where q: "init_states example_player None = Inr q" "\<forall>idx. elem (actions q) idx = 0"
    by blast
  then have d: "\<exists>p. init_states example_player None = Inr p \<and> elem (actions p) [0, 0, 0] = 0" by blast
  have e: "\<exists>p. init_states example_player (Some [1]) = Inr p
          \<and> elem (actions p) [0, 1, 0] = 0 \<and> elem (recurrent_state p) [0, 1, 0] = 0
          \<and> elem (stochastic_state p) [0, 1, 0] = 0
          \<and> elem (actions p) [0, 0, 0] = 7 \<and> elem (recurrent_state p) [0, 0, 0] = 8
          \<and> elem (stochastic_state p) [0, 0, 0] = 9"
    using p(1) a b c by blast
  show ?thesis using h(1,4) d e by (intro conjI)
qed

subsection \<open>C10: the first timestep of a training window\<close>

text \<open>
  Claim C10. At the start of a training call the \<open>is_first\<close> flag of the first timestep is
  overwritten with 1 for every element of the batch, whatever the replay data holds; the
  flags of the later timesteps are kept. The dynamic learning loop runs on the
  overwritten flags, and the flags it hands to the first step are all 1.
\<close>

theorem first_timestep_override:
  assumes "shape is_first = Suc n # b # rest"
  shows "\<exists>flags. override_first is_first = Inr flags
           \<and> shape flags = shape is_first
           \<and> (\<forall>idx. elem flags (0 # idx) = 1)
           \<and> (\<forall>t idx. elem flags (Suc t # idx) = elem is_first (Suc t # idx))
           \<and> (\<forall>e. elem (slice0 (Some (int 0)) (Some (int 0 + 1)) flags) [0, e, 0] = 1)
           \<and> (\<forall>stp args acts embedded_obs s.
                 dynamic_learning stp args acts embedded_obs is_first s =
                   Inr (dyn_loop_upto stp args acts embedded_obs flags s (sequence_length args)))"
proof -
  from override_first_ok[OF assms] obtain flags where
    f: "override_first is_first = Inr flags" "shape flags = shape is_first"
       "\<forall>idx. elem flags (0 # idx) = 1"
       "\<forall>t idx. elem flags (Suc t # idx) = elem is_first (Suc t # idx)" by blast
  have sh: "shape flags = Suc n # b # rest" using f(2) assms by simp
  have "elem (slice0 (Some (int 0)) (Some (int 0 + 1)) flags) [0, e, 0] = 1" for e
    using slice_row_flag[OF sh, of 0 e] f(3) by simp
  moreover have "dynamic_learning stp args acts embedded_obs is_first s =
                   Inr (dyn_loop_upto stp args acts embedded_obs flags s (sequence_length args))"
    for stp args acts embedded_obs s
    by (simp add: dynamic_learning_def f(1))
  ultimately show ?thesis using f by blast
qed

theorem first_timestep_override_witness:
  "shape (full [2, 3, 1] 0) = Suc 1 # 3 # [1]
   \<and> (\<exists>flags. override_first (full [2, 3, 1] 0) = Inr flags
          \<and> elem flags [0, 2, 0] = 1 \<and> elem flags [1, 2, 0] = 0)"
proof -
  have h: "shape (full [2, 3, 1] 0) = Suc 1 # 3 # [1]" by (simp add: full_def)
  from first_timestep_override[OF h] obtain flags where
    f: "override_first (full [2, 3, 1] 0) = Inr flags"
       "\<forall>idx. elem flags (0 # idx) = 1"
       "\<forall>t idx. elem flags (Suc t # idx) = elem (full [2, 3, 1] 0) (Suc t # idx)" by blast
  from f(2) have a: "elem flags (0 # [2, 0]) = 1" by blast
  from f(3) have "elem flags (Suc 0 # [2, 0]) = elem (full [2, 3, 1] 0) (Suc 0 # [2, 0])" by blast
  then have b: "elem flags [1, 2, 0] = 0" by (simp add: full_def)
  show ?thesis using h f(1) a b by auto
qed

end
